theory Spec2Isabelle
  imports Main
begin

section \<open>The Lemmy engine of searx: \<^verbatim>\<open>searx/engines/lemmy.py\<close>\<close>

text \<open>
  The module has two entry points: \<^verbatim>\<open>request(query, params)\<close> writes the search URL into
  the \<^verbatim>\<open>params\<close> dictionary, and \<^verbatim>\<open>response(resp)\<close> maps the JSON body of the answer to
  a list of result dictionaries. Both read the module globals \<^verbatim>\<open>base_url\<close> and
  \<^verbatim>\<open>lemmy_type\<close>. Python is dynamically typed, so the embedding works on one type of
  Python values, and every exception the source can raise is a value of type \<open>error\<close>.
\<close>

subsection \<open>Python values and exceptions\<close>

text \<open>
  The values that \<^verbatim>\<open>resp.json()\<close> returns and that the \<^verbatim>\<open>params\<close> dictionary holds.
  A \<^verbatim>\<open>str\<close> is the byte string of its UTF-8 encoding (the only operation of the module
  that looks inside a string is \<^verbatim>\<open>urlencode\<close>, which works on exactly these bytes).
  A \<^verbatim>\<open>dict\<close> nested in a value is an association list that is read with \<open>map_of\<close>.
  Numbers are integers: a float is never computed with here.
\<close>

datatype pyobj =
    PyNone
  | PyBool bool
  | PyInt int
  | PyStr string
  | PyList "pyobj list"
  | PyDict "(string \<times> pyobj) list"

datatype error =
    KeyError
  | TypeError
  | AttributeError
  | ValueError string
  | JSONDecodeError

text \<open>Sequencing of two steps, the first of which may raise.\<close>

definition ebind :: "error + 'a \<Rightarrow> ('a \<Rightarrow> error + 'b) \<Rightarrow> error + 'b" where
  "ebind m f = (case m of Inl e \<Rightarrow> Inl e | Inr x \<Rightarrow> f x)"

text \<open>
  \<^verbatim>\<open>x[k]\<close> with a string key \<open>k\<close>: only a dict can be indexed by a string; a missing key is
  a \<^verbatim>\<open>KeyError\<close>, every other kind of value raises \<^verbatim>\<open>TypeError\<close>.
\<close>

fun subscript :: "pyobj \<Rightarrow> string \<Rightarrow> error + pyobj" where
  "subscript (PyDict kvs) k = (case map_of kvs k of None \<Rightarrow> Inl KeyError | Some v \<Rightarrow> Inr v)"
| "subscript _ k = Inl TypeError"

text \<open>\<^verbatim>\<open>x.get(k, d)\<close>: a method of dicts only.\<close>

fun py_get :: "pyobj \<Rightarrow> string \<Rightarrow> pyobj \<Rightarrow> error + pyobj" where
  "py_get (PyDict kvs) k d = Inr (case map_of kvs k of None \<Rightarrow> d | Some v \<Rightarrow> v)"
| "py_get _ k d = Inl AttributeError"

text \<open>
  The elements that \<^verbatim>\<open>for result in x\<close> visits: the elements of a list, the keys of a
  dict, the characters of a string, each a string again (the loop bodies index every
  element with a string key, which raises on any string, so the bytes of the model stand
  for the characters); nothing else is iterable.
\<close>

fun py_iter :: "pyobj \<Rightarrow> error + pyobj list" where
  "py_iter (PyList xs) = Inr xs"
| "py_iter (PyDict kvs) = Inr (map (\<lambda>kv. PyStr (fst kv)) kvs)"
| "py_iter (PyStr s) = Inr (map (\<lambda>c. PyStr [c]) s)"
| "py_iter _ = Inl TypeError"

subsection \<open>Configuration and collaborators\<close>

text \<open>The module globals \<^verbatim>\<open>base_url\<close> and \<^verbatim>\<open>lemmy_type\<close>, set from the settings.\<close>

record config =
  base_url :: string
  lemmy_type :: string

text \<open>
  What the module calls and does not define: \<^verbatim>\<open>MarkdownIt(...).render\<close> and
  \<^verbatim>\<open>searx.utils.html_to_text\<close>, both functions from text to text, and the text that
  Python's \<^verbatim>\<open>str()\<close> gives for a list or a dict. They are parameters of the model.
\<close>

record externals =
  render :: "string \<Rightarrow> string"
  html_to_text :: "string \<Rightarrow> string"
  py_repr :: "pyobj \<Rightarrow> string"

subsection \<open>\<^verbatim>\<open>request\<close>\<close>

text \<open>
  \<^verbatim>\<open>str(v)\<close>: the decimal digits of an integer (with a minus sign when it is negative),
  the string itself for a string, the names \<^verbatim>\<open>None\<close>, \<^verbatim>\<open>True\<close>, \<^verbatim>\<open>False\<close>; for a list or
  a dict it is the text that the parameter \<open>py_repr\<close> stands for.
\<close>

fun dec :: "nat \<Rightarrow> string" where
  "dec n = (if n < 10 then [''0123456789'' ! n]
            else dec (n div 10) @ [''0123456789'' ! (n mod 10)])"

definition int_str :: "int \<Rightarrow> string" where
  "int_str i = (if i < 0 then CHR ''-'' # dec (nat (- i)) else dec (nat i))"

definition py_str :: "externals \<Rightarrow> pyobj \<Rightarrow> string" where
  "py_str ext v =
     (case v of
        PyStr s \<Rightarrow> s
      | PyInt i \<Rightarrow> int_str i
      | PyNone \<Rightarrow> ''None''
      | PyBool b \<Rightarrow> (if b then ''True'' else ''False'')
      | _ \<Rightarrow> py_repr ext v)"

text \<open>
  Modelled from the spec: \<^verbatim>\<open>urllib.parse.quote\<close> belongs to Python's standard library
  and is not among the files of the repository (as \<^verbatim>\<open>quote_plus\<close> and \<^verbatim>\<open>urlencode\<close>
  below). The specification (4.1, 6) says that \<^verbatim>\<open>request\<close> appends the URL-encoded
  parameters \<^verbatim>\<open>q=<query>&page=<n>&type_=<kind>\<close>; the definitions are that encoding, as
  the library performs it on the bytes of a string: a byte that is a letter, a digit,
  one of \<^verbatim>\<open>_.-~\<close> or listed in \<open>safe\<close> stays, every other byte becomes \<^verbatim>\<open>%XX\<close> with
  two upper-case hexadecimal digits.
\<close>

definition always_safe :: "char \<Rightarrow> bool" where
  "always_safe c =
     (c \<in> set ''ABCDEFGHIJKLMNOPQRSTUVWXYZabcdefghijklmnopqrstuvwxyz0123456789_.-~'')"

definition hex_digit :: "nat \<Rightarrow> char" where
  "hex_digit n = ''0123456789ABCDEF'' ! n"

definition percent :: "char \<Rightarrow> string" where
  "percent c = [CHR ''%'', hex_digit (of_char c div 16), hex_digit (of_char c mod 16)]"

definition quote :: "string \<Rightarrow> string \<Rightarrow> string" where
  "quote s safe =
     concat (map (\<lambda>c. if always_safe c \<or> c \<in> set safe then [c] else percent c) s)"

text \<open>
  Modelled from the spec: \<^verbatim>\<open>urllib.parse.quote_plus(s)\<close> of the standard library, which
  \<^verbatim>\<open>urlencode\<close> applies to every key and value. A string without a space is quoted as it
  is; otherwise the space is kept by \<^verbatim>\<open>quote\<close> and then written as \<^verbatim>\<open>+\<close>.
\<close>

definition quote_plus :: "string \<Rightarrow> string" where
  "quote_plus s =
     (if CHR '' '' \<notin> set s then quote s ''''
      else map (\<lambda>c. if c = CHR '' '' then CHR ''+'' else c) (quote s '' ''))"

text \<open>\<^verbatim>\<open>sep.join(parts)\<close>.\<close>

fun join :: "string \<Rightarrow> string list \<Rightarrow> string" where
  "join sep [] = []"
| "join sep [p] = p"
| "join sep (p # q # ps) = p @ sep @ join sep (q # ps)"

text \<open>
  Modelled from the spec: \<^verbatim>\<open>urllib.parse.urlencode(args)\<close> of the standard library, for
  a dict with string keys, given as its items in insertion order:
  \<^verbatim>\<open>quote_plus(str(k)) + '=' + quote_plus(str(v))\<close> for each item, joined with \<^verbatim>\<open>&\<close>.
\<close>

definition urlencode :: "externals \<Rightarrow> (string \<times> pyobj) list \<Rightarrow> string" where
  "urlencode ext args =
     join ''&'' (map (\<lambda>kv. quote_plus (fst kv) @ ''='' @ quote_plus (py_str ext (snd kv))) args)"

text \<open>
  \<^verbatim>\<open>request(query, params)\<close>. The \<^verbatim>\<open>params\<close> dictionary is a map. The function updates
  the caller's dictionary in place and returns that same object, so the model gives two
  things: the dictionary as it is after the call, and the outcome of the call, which is
  the exception raised or the dictionary returned. \<^verbatim>\<open>params['pageno']\<close> is read while the
  literal \<^verbatim>\<open>args\<close> is built, before the assignment to \<^verbatim>\<open>params['url']\<close>: when the key
  is missing, \<^verbatim>\<open>KeyError\<close> is raised and the dictionary is as it was.
\<close>

definition request ::
  "externals \<Rightarrow> config \<Rightarrow> string \<Rightarrow> (string \<rightharpoonup> pyobj)
     \<Rightarrow> (string \<rightharpoonup> pyobj) \<times> (error + (string \<rightharpoonup> pyobj))" where
  "request ext cfg query params =
     (case params ''pageno'' of
        None \<Rightarrow> (params, Inl KeyError)
      | Some pageno \<Rightarrow>
          (let args = [(''q'', PyStr query), (''page'', pageno), (''type_'', PyStr (lemmy_type cfg))];
               params' = params(''url'' \<mapsto>
                 PyStr (base_url cfg @ ''api/v3/search?'' @ urlencode ext args))
           in (params', Inr params')))"

subsection \<open>\<^verbatim>\<open>response\<close>\<close>

text \<open>A result dictionary with its three keys.\<close>

record result =
  url :: pyobj
  title :: pyobj
  content :: string

text \<open>
  \<^verbatim>\<open>_format_content(content)\<close>: the markdown renderer takes a \<^verbatim>\<open>str\<close> only and raises
  \<^verbatim>\<open>TypeError\<close> on anything else; its HTML goes through \<^verbatim>\<open>html_to_text\<close>.
\<close>

definition format_content :: "externals \<Rightarrow> pyobj \<Rightarrow> error + string" where
  "format_content ext c =
     (case c of
        PyStr s \<Rightarrow> Inr (html_to_text ext (render ext s))
      | _ \<Rightarrow> Inl TypeError)"

text \<open>
  The loop \<^verbatim>\<open>for result in xs: results.append(item)\<close> shared by the four
  \<^verbatim>\<open>_get_*\<close> functions; an exception raised while an item is built leaves the loop.
\<close>

fun for_append ::
  "(pyobj \<Rightarrow> error + result) \<Rightarrow> pyobj list \<Rightarrow> result list \<Rightarrow> error + result list" where
  "for_append item [] results = Inr results"
| "for_append item (r # rest) results =
     (case item r of
        Inl e \<Rightarrow> Inl e
      | Inr it \<Rightarrow> for_append item rest (results @ [it]))"

text \<open>
  The dictionary literal of each loop body; its three values are evaluated in the order
  \<^verbatim>\<open>'url'\<close>, \<^verbatim>\<open>'title'\<close>, \<^verbatim>\<open>'content'\<close>, each with its own lookups.
\<close>

definition communities_item :: "externals \<Rightarrow> pyobj \<Rightarrow> error + result" where
  "communities_item ext r =
     ebind (ebind (subscript r ''community'') (\<lambda>c. subscript c ''actor_id'')) (\<lambda>u.
     ebind (ebind (subscript r ''community'') (\<lambda>c. subscript c ''title'')) (\<lambda>t.
     ebind (ebind (subscript r ''community'') (\<lambda>c. py_get c ''description'' (PyStr ''''))) (\<lambda>d.
     ebind (format_content ext d) (\<lambda>txt.
       Inr \<lparr>url = u, title = t, content = txt\<rparr>))))"

definition users_item :: "externals \<Rightarrow> pyobj \<Rightarrow> error + result" where
  "users_item ext r =
     ebind (ebind (subscript r ''person'') (\<lambda>c. subscript c ''actor_id'')) (\<lambda>u.
     ebind (ebind (subscript r ''person'') (\<lambda>c. subscript c ''name'')) (\<lambda>t.
     ebind (ebind (subscript r ''person'') (\<lambda>c. py_get c ''bio'' (PyStr ''''))) (\<lambda>d.
     ebind (format_content ext d) (\<lambda>txt.
       Inr \<lparr>url = u, title = t, content = txt\<rparr>))))"

definition posts_item :: "externals \<Rightarrow> pyobj \<Rightarrow> error + result" where
  "posts_item ext r =
     ebind (ebind (subscript r ''post'') (\<lambda>c. subscript c ''ap_id'')) (\<lambda>u.
     ebind (ebind (subscript r ''post'') (\<lambda>c. subscript c ''name'')) (\<lambda>t.
     ebind (ebind (subscript r ''post'') (\<lambda>c. py_get c ''body'' (PyStr ''''))) (\<lambda>d.
     ebind (format_content ext d) (\<lambda>txt.
       Inr \<lparr>url = u, title = t, content = txt\<rparr>))))"

definition comments_item :: "externals \<Rightarrow> pyobj \<Rightarrow> error + result" where
  "comments_item ext r =
     ebind (ebind (subscript r ''comment'') (\<lambda>c. subscript c ''ap_id'')) (\<lambda>u.
     ebind (ebind (subscript r ''post'') (\<lambda>c. subscript c ''name'')) (\<lambda>t.
     ebind (ebind (subscript r ''comment'') (\<lambda>c. subscript c ''content'')) (\<lambda>d.
     ebind (format_content ext d) (\<lambda>txt.
       Inr \<lparr>url = u, title = t, content = txt\<rparr>))))"

definition get_communities :: "externals \<Rightarrow> pyobj \<Rightarrow> error + result list" where
  "get_communities ext json =
     ebind (ebind (subscript json ''communities'') py_iter) (\<lambda>xs.
       for_append (communities_item ext) xs [])"

definition get_users :: "externals \<Rightarrow> pyobj \<Rightarrow> error + result list" where
  "get_users ext json =
     ebind (ebind (subscript json ''users'') py_iter) (\<lambda>xs.
       for_append (users_item ext) xs [])"

definition get_posts :: "externals \<Rightarrow> pyobj \<Rightarrow> error + result list" where
  "get_posts ext json =
     ebind (ebind (subscript json ''posts'') py_iter) (\<lambda>xs.
       for_append (posts_item ext) xs [])"

definition get_comments :: "externals \<Rightarrow> pyobj \<Rightarrow> error + result list" where
  "get_comments ext json =
     ebind (ebind (subscript json ''comments'') py_iter) (\<lambda>xs.
       for_append (comments_item ext) xs [])"

text \<open>
  \<^verbatim>\<open>response(resp)\<close>. Its argument here is the outcome of \<^verbatim>\<open>resp.json()\<close>, which the
  source calls before it looks at \<^verbatim>\<open>lemmy_type\<close>: an exception of the JSON decoder
  propagates. The last line raises \<^verbatim>\<open>ValueError\<close> with the message of the source.
\<close>

definition response :: "externals \<Rightarrow> config \<Rightarrow> error + pyobj \<Rightarrow> error + result list" where
  "response ext cfg resp_json =
     (case resp_json of
        Inl e \<Rightarrow> Inl e
      | Inr json \<Rightarrow>
          if lemmy_type cfg = ''Communities'' then get_communities ext json
          else if lemmy_type cfg = ''Users'' then get_users ext json
          else if lemmy_type cfg = ''Posts'' then get_posts ext json
          else if lemmy_type cfg = ''Comments'' then get_comments ext json
          else Inl (ValueError (''Unsupported lemmy type: '' @ lemmy_type cfg)))"

subsection \<open>The entry points as steps on the state of the module\<close>

text \<open>
  What a call can leave behind for the next one. The state holds the module globals
  that the functions name, and the cell of the variable \<^verbatim>\<open>results\<close>, the one variable
  of the module that is updated after it is bound. Python binds \<^verbatim>\<open>results\<close> in the
  frame of the running \<^verbatim>\<open>_get_*\<close> call; here the cell is kept from one call to the
  next, so nothing about a fresh frame is taken for granted: whether an earlier call
  shows in a later one is decided by the statements of the functions alone.
\<close>

record py_state =
  globals :: config
  results_cell :: "result list"

type_synonym 'a exec = "py_state \<Rightarrow> (error + 'a) \<times> py_state"

text \<open>
  The statements and expressions of the source: \<^verbatim>\<open>return x\<close>, \<^verbatim>\<open>raise e\<close>, one step
  after another (an exception ends the sequence), an expression over local values, the
  read of a global name, and the three uses of \<^verbatim>\<open>results\<close>:
  \<^verbatim>\<open>results = []\<close>, \<^verbatim>\<open>results.append(item)\<close> and the read in \<^verbatim>\<open>return results\<close>.
\<close>

definition returns :: "'a \<Rightarrow> 'a exec" where
  "returns x = (\<lambda>s. (Inr x, s))"

definition raises :: "error \<Rightarrow> 'a exec" where
  "raises e = (\<lambda>s. (Inl e, s))"

definition then_do :: "'a exec \<Rightarrow> ('a \<Rightarrow> 'b exec) \<Rightarrow> 'b exec" where
  "then_do m f = (\<lambda>s. case m s of (Inl e, s') \<Rightarrow> (Inl e, s') | (Inr x, s') \<Rightarrow> f x s')"

definition evaluate :: "error + 'a \<Rightarrow> 'a exec" where
  "evaluate r = (\<lambda>s. (r, s))"

definition read_global :: "(config \<Rightarrow> 'a) \<Rightarrow> 'a exec" where
  "read_global name = (\<lambda>s. (Inr (name (globals s)), s))"

definition assign_results :: "result list \<Rightarrow> unit exec" where
  "assign_results v = (\<lambda>s. (Inr (), s\<lparr>results_cell := v\<rparr>))"

definition results_append :: "result \<Rightarrow> unit exec" where
  "results_append it = (\<lambda>s. (Inr (), s\<lparr>results_cell := results_cell s @ [it]\<rparr>))"

definition read_results :: "result list exec" where
  "read_results = (\<lambda>s. (Inr (results_cell s), s))"

text \<open>\<^verbatim>\<open>for result in xs: body\<close>, the state going from one round to the next.\<close>

fun for_each :: "pyobj list \<Rightarrow> (pyobj \<Rightarrow> unit exec) \<Rightarrow> unit exec" where
  "for_each [] body s = (Inr (), s)"
| "for_each (r # rest) body s =
     (case body r s of
        (Inl e, s') \<Rightarrow> (Inl e, s')
      | (Inr u, s') \<Rightarrow> for_each rest body s')"

text \<open>
  The four \<^verbatim>\<open>_get_*\<close> functions, statement by statement: \<^verbatim>\<open>results = []\<close>, the loop
  over \<^verbatim>\<open>json[key]\<close> that appends the dictionary literal of each element, and
  \<^verbatim>\<open>return results\<close>.
\<close>

definition get_communities_st :: "externals \<Rightarrow> pyobj \<Rightarrow> result list exec" where
  "get_communities_st ext json =
     then_do (assign_results []) (\<lambda>u.
     then_do (evaluate (ebind (subscript json ''communities'') py_iter)) (\<lambda>xs.
     then_do (for_each xs (\<lambda>r. then_do (evaluate (communities_item ext r)) results_append)) (\<lambda>u.
     read_results)))"

definition get_users_st :: "externals \<Rightarrow> pyobj \<Rightarrow> result list exec" where
  "get_users_st ext json =
     then_do (assign_results []) (\<lambda>u.
     then_do (evaluate (ebind (subscript json ''users'') py_iter)) (\<lambda>xs.
     then_do (for_each xs (\<lambda>r. then_do (evaluate (users_item ext r)) results_append)) (\<lambda>u.
     read_results)))"

definition get_posts_st :: "externals \<Rightarrow> pyobj \<Rightarrow> result list exec" where
  "get_posts_st ext json =
     then_do (assign_results []) (\<lambda>u.
     then_do (evaluate (ebind (subscript json ''posts'') py_iter)) (\<lambda>xs.
     then_do (for_each xs (\<lambda>r. then_do (evaluate (posts_item ext r)) results_append)) (\<lambda>u.
     read_results)))"

definition get_comments_st :: "externals \<Rightarrow> pyobj \<Rightarrow> result list exec" where
  "get_comments_st ext json =
     then_do (assign_results []) (\<lambda>u.
     then_do (evaluate (ebind (subscript json ''comments'') py_iter)) (\<lambda>xs.
     then_do (for_each xs (\<lambda>r. then_do (evaluate (comments_item ext r)) results_append)) (\<lambda>u.
     read_results)))"

text \<open>
  \<^verbatim>\<open>response(resp)\<close>: \<^verbatim>\<open>json = resp.json()\<close>, then the four tests, each of which reads
  the global \<^verbatim>\<open>lemmy_type\<close> anew, then the \<^verbatim>\<open>raise\<close>, which reads it once more for the
  message.
\<close>

definition response_st :: "externals \<Rightarrow> error + pyobj \<Rightarrow> result list exec" where
  "response_st ext resp_json =
     then_do (evaluate resp_json) (\<lambda>json.
     then_do (read_global lemmy_type) (\<lambda>t1.
       if t1 = ''Communities'' then get_communities_st ext json else
     then_do (read_global lemmy_type) (\<lambda>t2.
       if t2 = ''Users'' then get_users_st ext json else
     then_do (read_global lemmy_type) (\<lambda>t3.
       if t3 = ''Posts'' then get_posts_st ext json else
     then_do (read_global lemmy_type) (\<lambda>t4.
       if t4 = ''Comments'' then get_comments_st ext json else
     then_do (read_global lemmy_type) (\<lambda>t5.
       raises (ValueError (''Unsupported lemmy type: '' @ t5))))))))"

text \<open>
  \<^verbatim>\<open>request(query, params)\<close>: the literal \<^verbatim>\<open>args\<close> reads \<^verbatim>\<open>params['pageno']\<close> and then
  the global \<^verbatim>\<open>lemmy_type\<close>, the f-string reads the global \<^verbatim>\<open>base_url\<close>; the value
  returned is the dictionary of the caller with \<^verbatim>\<open>'url'\<close> assigned.
\<close>

definition request_st ::
  "externals \<Rightarrow> string \<Rightarrow> (string \<rightharpoonup> pyobj) \<Rightarrow> (string \<rightharpoonup> pyobj) exec" where
  "request_st ext query params =
     then_do (evaluate (case params ''pageno'' of None \<Rightarrow> Inl KeyError | Some p \<Rightarrow> Inr p)) (\<lambda>pageno.
     then_do (read_global lemmy_type) (\<lambda>t.
     then_do (read_global base_url) (\<lambda>b.
     returns (params(''url'' \<mapsto> PyStr (b @ ''api/v3/search?'' @
        urlencode ext [(''q'', PyStr query), (''page'', pageno), (''type_'', PyStr t)]))))))"

text \<open>A sequence of calls of the two entry points, and the state it leaves.\<close>

datatype call =
    Request string "string \<rightharpoonup> pyobj"
  | Response "error + pyobj"

fun run :: "externals \<Rightarrow> call list \<Rightarrow> py_state \<Rightarrow> py_state" where
  "run ext [] s = s"
| "run ext (Request query params # cs) s = run ext cs (snd (request_st ext query params s))"
| "run ext (Response resp_json # cs) s = run ext cs (snd (response_st ext resp_json s))"

section \<open>The specification's side\<close>

subsection \<open>The dispatch table of the specification (4.1)\<close>

text \<open>
  One row per kind: the source array, and the paths (sub-object, field) of the url, the
  title and the content. \<open>content_default\<close> is the empty string where the table says
  ``default empty'' and \<open>None\<close> where it says ``required, no default''.
\<close>

record field_paths =
  source_array :: string
  url_field :: "string \<times> string"
  title_field :: "string \<times> string"
  content_field :: "string \<times> string"
  content_default :: "string option"

definition dispatch_table :: "string \<rightharpoonup> field_paths" where
  "dispatch_table = map_of
     [(''Communities'',
         \<lparr>source_array = ''communities'', url_field = (''community'', ''actor_id''),
          title_field = (''community'', ''title''),
          content_field = (''community'', ''description''), content_default = Some ''''\<rparr>),
      (''Users'',
         \<lparr>source_array = ''users'', url_field = (''person'', ''actor_id''),
          title_field = (''person'', ''name''),
          content_field = (''person'', ''bio''), content_default = Some ''''\<rparr>),
      (''Posts'',
         \<lparr>source_array = ''posts'', url_field = (''post'', ''ap_id''),
          title_field = (''post'', ''name''),
          content_field = (''post'', ''body''), content_default = Some ''''\<rparr>),
      (''Comments'',
         \<lparr>source_array = ''comments'', url_field = (''comment'', ''ap_id''),
          title_field = (''post'', ''name''),
          content_field = (''comment'', ''content''), content_default = None\<rparr>)]"

text \<open>The field at a path \<open>sub.field\<close> of an array element, when the element has it.\<close>

definition field_at :: "pyobj \<Rightarrow> string \<times> string \<Rightarrow> pyobj option" where
  "field_at x p =
     (case x of
        PyDict kvs \<Rightarrow>
          (case map_of kvs (fst p) of
             Some (PyDict sub) \<Rightarrow> map_of sub (snd p)
           | _ \<Rightarrow> None)
      | _ \<Rightarrow> None)"

text \<open>The markdown-to-plain-text conversion (4.2): render to HTML, then strip the markup.\<close>

definition render_excerpt :: "externals \<Rightarrow> string \<Rightarrow> string" where
  "render_excerpt ext s = html_to_text ext (render ext s)"

text \<open>
  The Result item that a row of the table describes for one element: the url and the
  title are the fields at their paths, the content is the converted text at the content
  path, or the converted default when the field is absent and the row has a default.
  There is no item when a field that is needed is absent or the content is not text.
\<close>

definition table_item :: "externals \<Rightarrow> field_paths \<Rightarrow> pyobj \<Rightarrow> result option" where
  "table_item ext t x =
     (case (field_at x (url_field t), field_at x (title_field t)) of
        (Some u, Some ti) \<Rightarrow>
          (case (field_at x (content_field t), content_default t) of
             (Some (PyStr s), _) \<Rightarrow> Some \<lparr>url = u, title = ti, content = render_excerpt ext s\<rparr>
           | (None, Some d) \<Rightarrow> Some \<lparr>url = u, title = ti, content = render_excerpt ext d\<rparr>
           | _ \<Rightarrow> None)
      | _ \<Rightarrow> None)"

text \<open>
  The errors that the specification (7) calls \<open>MalformedResponse\<close>: a lookup in the JSON
  body that fails because a key is absent or a value has the wrong type.
\<close>

definition malformed_response :: "error \<Rightarrow> bool" where
  "malformed_response e = (e = KeyError \<or> e = TypeError \<or> e = AttributeError)"

subsection \<open>Decoding a query string\<close>

text \<open>
  The decoding of \<^verbatim>\<open>application/x-www-form-urlencoded\<close> text, against which the URL of
  \<open>request\<close> is read back: the text is cut at every \<^verbatim>\<open>&\<close>, each part at its first
  \<^verbatim>\<open>=\<close>, then \<^verbatim>\<open>+\<close> is a space and \<^verbatim>\<open>%XX\<close> the byte with that hexadecimal code.
  Empty parts are skipped, blank values are kept.
\<close>

definition hex_value :: "char \<Rightarrow> nat option" where
  "hex_value c =
     (let n = (of_char c :: nat) in
      if 48 \<le> n \<and> n \<le> 57 then Some (n - 48)
      else if 65 \<le> n \<and> n \<le> 70 then Some (n - 55)
      else if 97 \<le> n \<and> n \<le> 102 then Some (n - 87)
      else None)"

fun unquote_plus :: "string \<Rightarrow> string" where
  "unquote_plus [] = []"
| "unquote_plus (c # cs) =
     (if c = CHR ''+'' then CHR '' '' # unquote_plus cs
      else if c = CHR ''%'' then
        (case cs of
           a # b # rest \<Rightarrow>
             (case (hex_value a, hex_value b) of
                (Some h, Some l) \<Rightarrow> char_of (16 * h + l) # unquote_plus rest
              | _ \<Rightarrow> c # unquote_plus cs)
         | _ \<Rightarrow> c # unquote_plus cs)
      else c # unquote_plus cs)"

fun split_on :: "char \<Rightarrow> string \<Rightarrow> string list" where
  "split_on sep [] = [[]]"
| "split_on sep (c # cs) =
     (if c = sep then [] # split_on sep cs
      else (case split_on sep cs of
              p # ps \<Rightarrow> (c # p) # ps
            | [] \<Rightarrow> [[c]]))"

definition decode_pair :: "string \<Rightarrow> string \<times> string" where
  "decode_pair s =
     (unquote_plus (takeWhile (\<lambda>c. c \<noteq> CHR ''='') s),
      unquote_plus (drop 1 (dropWhile (\<lambda>c. c \<noteq> CHR ''='') s)))"

definition decode_query :: "string \<Rightarrow> (string \<times> string) list" where
  "decode_query qs = map decode_pair (filter (\<lambda>p. p \<noteq> []) (split_on CHR ''&'' qs))"

text \<open>Reading a decimal integer, with an optional minus sign.\<close>

definition digit_value :: "char \<Rightarrow> nat option" where
  "digit_value c =
     (let n = (of_char c :: nat) in if 48 \<le> n \<and> n \<le> 57 then Some (n - 48) else None)"

fun parse_nat :: "string \<Rightarrow> nat \<Rightarrow> nat option" where
  "parse_nat [] acc = Some acc"
| "parse_nat (c # cs) acc =
     (case digit_value c of
        None \<Rightarrow> None
      | Some d \<Rightarrow> parse_nat cs (10 * acc + d))"

definition decode_int :: "string \<Rightarrow> int option" where
  "decode_int s =
     (case s of
        [] \<Rightarrow> None
      | c # cs \<Rightarrow>
          if c = CHR ''-'' then (if cs = [] then None else map_option (\<lambda>n. - int n) (parse_nat cs 0))
          else map_option int (parse_nat s 0))"

subsection \<open>Values for the worked examples\<close>

text \<open>
  Stand-ins for the collaborators, used where an example is evaluated: the renderer
  drops the emphasis marks of markdown, the HTML stripper has nothing left to do.
\<close>

definition example_ext :: externals where
  "example_ext =
     \<lparr>render = filter (\<lambda>c. c \<noteq> CHR ''*''), html_to_text = id, py_repr = (\<lambda>v. ''[]'')\<rparr>"

definition communities_cfg :: config where
  "communities_cfg = \<lparr>base_url = ''https://lemmy.ml/'', lemmy_type = ''Communities''\<rparr>"

definition users_cfg :: config where
  "users_cfg = \<lparr>base_url = ''https://lemmy.ml/'', lemmy_type = ''Users''\<rparr>"

definition posts_cfg :: config where
  "posts_cfg = \<lparr>base_url = ''https://lemmy.ml/'', lemmy_type = ''Posts''\<rparr>"

definition comments_cfg :: config where
  "comments_cfg = \<lparr>base_url = ''https://lemmy.ml/'', lemmy_type = ''Comments''\<rparr>"

definition post_element :: "string \<Rightarrow> string \<Rightarrow> pyobj" where
  "post_element i n = PyDict [(''post'', PyDict [(''ap_id'', PyStr i), (''name'', PyStr n)])]"

definition comment_element :: "string \<Rightarrow> string \<Rightarrow> (string \<times> pyobj) list \<Rightarrow> pyobj" where
  "comment_element i n kvs =
     PyDict [(''comment'', PyDict ((''ap_id'', PyStr i) # kvs)),
             (''post'', PyDict [(''name'', PyStr n)])]"

definition unknown_cfg :: config where
  "unknown_cfg = \<lparr>base_url = ''https://lemmy.ml/'', lemmy_type = ''Unknown''\<rparr>"

text \<open>A state in which an earlier call has left an item in the cell of \<^verbatim>\<open>results\<close>.\<close>

definition stale_state :: py_state where
  "stale_state =
     \<lparr>globals = posts_cfg,
      results_cell = [\<lparr>url = PyStr ''left over'', title = PyStr ''left over'', content = ''left over''\<rparr>]\<rparr>"

section \<open>Properties\<close>

subsection \<open>The loop and the four item builders\<close>

lemma for_append_Inr_iff:
  "(for_append item xs acc = Inr items) = (\<exists>ys. items = acc @ ys \<and> map item xs = map Inr ys)"
proof (induction xs arbitrary: acc items)
  case Nil
  then show ?case by auto
next
  case (Cons x xs)
  show ?case
  proof (cases "item x")
    case (Inl e)
    then show ?thesis by (auto simp: map_eq_Cons_conv)
  next
    case (Inr it)
    then show ?thesis
      by (auto simp: Cons.IH map_eq_Cons_conv Cons_eq_map_conv)
  qed
qed

lemma for_append_Inl_first:
  assumes "i < length xs" and "\<forall>j<i. \<exists>it. item (xs ! j) = Inr it" and "item (xs ! i) = Inl e"
  shows "for_append item xs acc = Inl e"
  using assms
proof (induction xs arbitrary: i acc)
  case Nil
  then show ?case by simp
next
  case (Cons x xs)
  show ?case
  proof (cases i)
    case 0
    with Cons.prems show ?thesis by simp
  next
    case (Suc k)
    with Cons.prems(2) obtain it where x: "item x = Inr it"
      by fastforce
    have "for_append item xs (acc @ [it]) = Inl e"
    proof (rule Cons.IH)
      show "k < length xs" using Cons.prems(1) Suc by simp
      show "\<forall>j<k. \<exists>it. item (xs ! j) = Inr it"
        using Cons.prems(2) Suc by fastforce
      show "item (xs ! k) = Inl e" using Cons.prems(3) Suc by simp
    qed
    with x show ?thesis by simp
  qed
qed

lemma for_append_Inl_source:
  assumes "for_append item xs acc = Inl e"
  shows "\<exists>x\<in>set xs. item x = Inl e"
  using assms
proof (induction xs arbitrary: acc)
  case Nil
  then show ?case by simp
next
  case (Cons x xs)
  then show ?case by (cases "item x") auto
qed

lemma map_Inr_Some_iff:
  assumes "\<And>x it. (item x = Inr it) = (f x = Some it)"
  shows "(map item xs = map Inr items) = (map f xs = map Some items)"
proof (induction xs arbitrary: items)
  case Nil
  show ?case by auto
next
  case (Cons x xs)
  show ?case
    by (cases items) (auto simp: Cons.IH assms)
qed

lemma map_eq_nth:
  assumes "map f xs = map g ys"
  shows "length ys = length xs \<and> (\<forall>i<length xs. f (xs ! i) = g (ys ! i))"
proof -
  have l: "length xs = length ys"
    using assms by (rule map_eq_imp_length_eq)
  have "\<forall>i<length xs. map f xs ! i = map g ys ! i"
    using assms by simp
  with l show ?thesis by simp
qed

lemma communities_item_table:
  "(communities_item ext x = Inr it) =
   (table_item ext \<lparr>source_array = a, url_field = (''community'', ''actor_id''),
          title_field = (''community'', ''title''),
          content_field = (''community'', ''description''), content_default = Some ''''\<rparr> x = Some it)"
  by (cases x) (auto simp: communities_item_def table_item_def field_at_def ebind_def format_content_def render_excerpt_def
      split: option.splits pyobj.splits sum.splits)

lemma users_item_table:
  "(users_item ext x = Inr it) =
   (table_item ext \<lparr>source_array = a, url_field = (''person'', ''actor_id''),
          title_field = (''person'', ''name''),
          content_field = (''person'', ''bio''), content_default = Some ''''\<rparr> x = Some it)"
  by (cases x) (auto simp: users_item_def table_item_def field_at_def ebind_def format_content_def render_excerpt_def
      split: option.splits pyobj.splits sum.splits)

lemma posts_item_table:
  "(posts_item ext x = Inr it) =
   (table_item ext \<lparr>source_array = a, url_field = (''post'', ''ap_id''),
          title_field = (''post'', ''name''),
          content_field = (''post'', ''body''), content_default = Some ''''\<rparr> x = Some it)"
  by (cases x) (auto simp: posts_item_def table_item_def field_at_def ebind_def format_content_def render_excerpt_def
      split: option.splits pyobj.splits sum.splits)

lemma comments_item_table:
  "(comments_item ext x = Inr it) =
   (table_item ext \<lparr>source_array = a, url_field = (''comment'', ''ap_id''),
          title_field = (''post'', ''name''),
          content_field = (''comment'', ''content''), content_default = None\<rparr> x = Some it)"
  by (cases x) (auto simp: comments_item_def table_item_def field_at_def ebind_def format_content_def render_excerpt_def
      split: option.splits pyobj.splits sum.splits)

lemma subscript_errors:
  assumes "subscript x k = Inl e"
  shows "e = KeyError \<or> e = TypeError"
  using assms by (cases x) (auto split: option.splits)

lemma format_content_errors:
  assumes "format_content ext c = Inl e"
  shows "e = TypeError"
  using assms by (auto simp: format_content_def split: pyobj.splits)

lemma comments_item_errors:
  assumes "comments_item ext x = Inl e"
  shows "malformed_response e"
  using assms
  by (auto simp: comments_item_def ebind_def malformed_response_def
      split: sum.splits dest: subscript_errors format_content_errors)

lemma comments_item_no_content:
  assumes "map_of el ''comment'' = Some (PyDict c)" and "map_of c ''content'' = None"
  shows "\<exists>e. comments_item ext (PyDict el) = Inl e"
    and "map_of c ''ap_id'' \<noteq> None \<Longrightarrow> field_at (PyDict el) (''post'', ''name'') \<noteq> None
         \<Longrightarrow> comments_item ext (PyDict el) = Inl KeyError"
  using assms
  by (auto simp: comments_item_def ebind_def field_at_def split: option.splits pyobj.splits sum.splits)

subsection \<open>\<^verbatim>\<open>response\<close> against the dispatch table\<close>

lemma dispatch_table_cases:
  assumes "dispatch_table kind = Some t"
  shows "(kind = ''Communities'' \<and> t = \<lparr>source_array = ''communities'', url_field = (''community'', ''actor_id''),
          title_field = (''community'', ''title''),
          content_field = (''community'', ''description''), content_default = Some ''''\<rparr>)
       \<or> (kind = ''Users'' \<and> t = \<lparr>source_array = ''users'', url_field = (''person'', ''actor_id''),
          title_field = (''person'', ''name''),
          content_field = (''person'', ''bio''), content_default = Some ''''\<rparr>)
       \<or> (kind = ''Posts'' \<and> t = \<lparr>source_array = ''posts'', url_field = (''post'', ''ap_id''),
          title_field = (''post'', ''name''),
          content_field = (''post'', ''body''), content_default = Some ''''\<rparr>)
       \<or> (kind = ''Comments'' \<and> t = \<lparr>source_array = ''comments'', url_field = (''comment'', ''ap_id''),
          title_field = (''post'', ''name''),
          content_field = (''comment'', ''content''), content_default = None\<rparr>)"
  using assms unfolding dispatch_table_def
  by (simp split: if_splits)

lemma response_by_table:
  assumes "dispatch_table (lemmy_type cfg) = Some t"
  obtains item where
    "\<And>json. response ext cfg (Inr json) =
        ebind (ebind (subscript json (source_array t)) py_iter) (\<lambda>xs. for_append item xs [])"
    and "\<And>x it. (item x = Inr it) = (table_item ext t x = Some it)"
proof -
  from dispatch_table_cases [OF assms]
  consider (c) "lemmy_type cfg = ''Communities''" "source_array t = ''communities''"
        "\<And>x it. (communities_item ext x = Inr it) = (table_item ext t x = Some it)"
    | (u) "lemmy_type cfg = ''Users''" "source_array t = ''users''"
        "\<And>x it. (users_item ext x = Inr it) = (table_item ext t x = Some it)"
    | (p) "lemmy_type cfg = ''Posts''" "source_array t = ''posts''"
        "\<And>x it. (posts_item ext x = Inr it) = (table_item ext t x = Some it)"
    | (m) "lemmy_type cfg = ''Comments''" "source_array t = ''comments''"
        "\<And>x it. (comments_item ext x = Inr it) = (table_item ext t x = Some it)"
    using communities_item_table users_item_table posts_item_table comments_item_table
    by (elim disjE conjE) simp_all
  then show thesis
  proof cases
    case c
    show thesis
      by (rule that [of "communities_item ext"]) (simp_all add: c response_def get_communities_def)
  next
    case u
    show thesis
      by (rule that [of "users_item ext"]) (simp_all add: u response_def get_users_def)
  next
    case p
    show thesis
      by (rule that [of "posts_item ext"]) (simp_all add: p response_def get_posts_def)
  next
    case m
    show thesis
      by (rule that [of "comments_item ext"]) (simp_all add: m response_def get_comments_def)
  qed
qed

lemma response_on_list:
  assumes "dispatch_table (lemmy_type cfg) = Some t"
  obtains item where
    "\<And>obj xs. map_of obj (source_array t) = Some (PyList xs) \<Longrightarrow>
        response ext cfg (Inr (PyDict obj)) = for_append item xs []"
    and "\<And>x it. (item x = Inr it) = (table_item ext t x = Some it)"
proof -
  obtain item where
    r: "\<And>json. response ext cfg (Inr json) =
        ebind (ebind (subscript json (source_array t)) py_iter) (\<lambda>xs. for_append item xs [])"
    and i: "\<And>x it. (item x = Inr it) = (table_item ext t x = Some it)"
    using response_by_table [OF assms] by blast
  show thesis
    by (rule that [of item]) (simp_all add: r i ebind_def)
qed

lemma table_item_fields:
  assumes "table_item ext t x = Some it"
  shows "field_at x (url_field t) = Some (url it)" and "field_at x (title_field t) = Some (title it)"
  using assms by (auto simp: table_item_def split: option.splits pyobj.splits)

lemma table_item_default:
  assumes "table_item ext t x = Some it" and "field_at x (content_field t) = None"
  shows "content_default t \<noteq> None \<and> content it = render_excerpt ext (the (content_default t))"
  using assms by (auto simp: table_item_def split: option.splits pyobj.splits)

lemma table_item_exists:
  assumes "field_at x (url_field t) \<noteq> None" and "field_at x (title_field t) \<noteq> None"
    and "field_at x (content_field t) = None \<and> content_default t \<noteq> None
         \<or> (\<exists>s. field_at x (content_field t) = Some (PyStr s))"
  shows "table_item ext t x \<noteq> None"
  using assms by (auto simp: table_item_def split: option.splits pyobj.splits)

lemmas eval_defs = response_def get_communities_def get_users_def get_posts_def get_comments_def
  communities_item_def users_item_def posts_item_def comments_item_def ebind_def format_content_def
  example_ext_def communities_cfg_def users_cfg_def posts_cfg_def comments_cfg_def
  post_element_def comment_element_def dispatch_table_def table_item_def field_at_def render_excerpt_def

subsection \<open>The statements on the state against the functions\<close>

lemma append_step:
  "then_do (evaluate (item r)) results_append s =
     (case item r of
        Inl e \<Rightarrow> (Inl e, s)
      | Inr it \<Rightarrow> (Inr (), s\<lparr>results_cell := results_cell s @ [it]\<rparr>))"
  by (simp add: then_do_def evaluate_def results_append_def split: sum.splits)

lemma for_each_append:
  assumes b: "\<And>r s. body r s =
     (case item r of
        Inl e \<Rightarrow> (Inl e, s)
      | Inr it \<Rightarrow> (Inr (), s\<lparr>results_cell := results_cell s @ [it]\<rparr>))"
  shows "for_append item xs (results_cell s) = Inr items \<Longrightarrow>
           for_each xs body s = (Inr (), s\<lparr>results_cell := items\<rparr>)"
    and "for_append item xs (results_cell s) = Inl e \<Longrightarrow> fst (for_each xs body s) = Inl e"
    and "globals (snd (for_each xs body s)) = globals s"
proof (induction xs arbitrary: s)
  case Nil
  {
    case 1
    then show ?case by simp
  next
    case 2
    then show ?case by simp
  next
    case 3
    show ?case by simp
  }
next
  case (Cons x xs)
  have step: "body x s =
     (case item x of
        Inl e \<Rightarrow> (Inl e, s)
      | Inr it \<Rightarrow> (Inr (), s\<lparr>results_cell := results_cell s @ [it]\<rparr>))" for s
    by (rule b)
  {
    case 1
    then show ?case
      by (cases "item x") (simp_all add: step Cons.IH(1))
  next
    case 2
    then show ?case
      by (cases "item x") (simp_all add: step Cons.IH(2))
  next
    case 3
    show ?case
      by (cases "item x") (simp_all add: step Cons.IH(3))
  }
qed


lemma get_st_pure:
  assumes b: "\<And>r s. body r s =
     (case item r of
        Inl e \<Rightarrow> (Inl e, s)
      | Inr it \<Rightarrow> (Inr (), s\<lparr>results_cell := results_cell s @ [it]\<rparr>))"
  shows "fst (then_do (assign_results []) (\<lambda>u.
           then_do (evaluate a) (\<lambda>xs.
           then_do (for_each xs body) (\<lambda>u. read_results))) s)
         = ebind a (\<lambda>xs. for_append item xs [])"
    and "globals (snd (then_do (assign_results []) (\<lambda>u.
           then_do (evaluate a) (\<lambda>xs.
           then_do (for_each xs body) (\<lambda>u. read_results))) s)) = globals s"
proof -
  let ?s0 = "s\<lparr>results_cell := []\<rparr>"
  let ?m = "then_do (assign_results []) (\<lambda>u.
           then_do (evaluate a) (\<lambda>xs.
           then_do (for_each xs body) (\<lambda>u. read_results)))"
  have m: "?m s = (case a of
      Inl e \<Rightarrow> (Inl e, ?s0)
    | Inr xs \<Rightarrow> (case for_each xs body ?s0 of
        (Inl e, s') \<Rightarrow> (Inl e, s')
      | (Inr u, s') \<Rightarrow> (Inr (results_cell s'), s')))"
    by (simp add: then_do_def assign_results_def evaluate_def read_results_def split: sum.splits)
  show "fst (?m s) = ebind a (\<lambda>xs. for_append item xs [])"
  proof (cases a)
    case (Inl e)
    then show ?thesis unfolding m by (simp add: ebind_def)
  next
    case (Inr xs)
    show ?thesis
    proof (cases "for_append item xs []")
      case (Inl e)
      then have "fst (for_each xs body ?s0) = Inl e"
        using for_each_append(2) [where body = body and item = item and xs = xs and s = ?s0, OF b] by simp
      then obtain s' where "for_each xs body ?s0 = (Inl e, s')"
        by (cases "for_each xs body ?s0") simp
      with Inl \<open>a = Inr xs\<close> show ?thesis
        unfolding m by (simp add: ebind_def)
    next
      case (Inr items)
      then have "for_each xs body ?s0 = (Inr (), ?s0\<lparr>results_cell := items\<rparr>)"
        using for_each_append(1) [where body = body and item = item and xs = xs and s = ?s0, OF b] by simp
      with Inr \<open>a = Inr xs\<close> show ?thesis
        unfolding m by (simp add: ebind_def)
    qed
  qed
  show "globals (snd (?m s)) = globals s"
  proof (cases a)
    case (Inl e)
    then show ?thesis unfolding m by simp
  next
    case (Inr xs)
    have "globals (snd (for_each xs body ?s0)) = globals s"
      using for_each_append(3) [where body = body and item = item and xs = xs and s = ?s0, OF b] by simp
    with Inr show ?thesis
      unfolding m by (auto split: prod.splits sum.splits)
  qed
qed

lemma get_communities_st_pure:
  "fst (get_communities_st ext json s) = get_communities ext json"
  "globals (snd (get_communities_st ext json s)) = globals s"
  unfolding get_communities_st_def get_communities_def
  by (rule get_st_pure [OF append_step])+

lemma get_users_st_pure:
  "fst (get_users_st ext json s) = get_users ext json"
  "globals (snd (get_users_st ext json s)) = globals s"
  unfolding get_users_st_def get_users_def
  by (rule get_st_pure [OF append_step])+

lemma get_posts_st_pure:
  "fst (get_posts_st ext json s) = get_posts ext json"
  "globals (snd (get_posts_st ext json s)) = globals s"
  unfolding get_posts_st_def get_posts_def
  by (rule get_st_pure [OF append_step])+

lemma get_comments_st_pure:
  "fst (get_comments_st ext json s) = get_comments ext json"
  "globals (snd (get_comments_st ext json s)) = globals s"
  unfolding get_comments_st_def get_comments_def
  by (rule get_st_pure [OF append_step])+

lemmas get_st_pure_all = get_communities_st_pure get_users_st_pure get_posts_st_pure
  get_comments_st_pure

lemma response_st_unfold:
  "response_st ext j s =
     (case j of
        Inl e \<Rightarrow> (Inl e, s)
      | Inr json \<Rightarrow>
          if lemmy_type (globals s) = ''Communities'' then get_communities_st ext json s
          else if lemmy_type (globals s) = ''Users'' then get_users_st ext json s
          else if lemmy_type (globals s) = ''Posts'' then get_posts_st ext json s
          else if lemmy_type (globals s) = ''Comments'' then get_comments_st ext json s
          else (Inl (ValueError (''Unsupported lemmy type: '' @ lemmy_type (globals s))), s))"
  by (simp add: response_st_def then_do_def evaluate_def read_global_def raises_def
      split: sum.splits)

lemma response_st_pure:
  "fst (response_st ext j s) = response ext (globals s) j"
  "globals (snd (response_st ext j s)) = globals s"
  by (simp_all add: response_st_unfold response_def get_st_pure_all split: sum.splits)

lemma request_st_pure:
  "fst (request_st ext q params s) = snd (request ext (globals s) q params)"
  "snd (request_st ext q params s) = s"
  by (simp_all add: request_st_def request_def then_do_def evaluate_def read_global_def
      returns_def Let_def split: option.splits)

lemma run_globals: "globals (run ext calls s) = globals s"
proof (induction calls arbitrary: s)
  case Nil
  show ?case by simp
next
  case (Cons c calls)
  show ?case
    by (cases c) (simp_all add: Cons.IH request_st_pure(2) response_st_pure(2))
qed

subsection \<open>The claims about \<^verbatim>\<open>response\<close>\<close>

text \<open>
  C1, as the code has it. For each of the four kinds and every JSON object whose source
  array is a list, \<open>response\<close> returns a list exactly when every element has the fields
  on the paths of the dispatch table (the content being text, or absent where the table
  gives a default), and the list then holds one item per element, in order, each the
  item of the table: url and title from their paths, content through the
  markdown-to-text conversion. An element without such a field makes the call raise.
\<close>

theorem response_emits_table_items:
  assumes "dispatch_table (lemmy_type cfg) = Some t"
    and "map_of obj (source_array t) = Some (PyList xs)"
  shows "(response ext cfg (Inr (PyDict obj)) = Inr items) =
         (map (table_item ext t) xs = map Some items)"
proof -
  obtain item where
    r: "\<And>json. response ext cfg (Inr json) =
        ebind (ebind (subscript json (source_array t)) py_iter) (\<lambda>xs. for_append item xs [])"
    and i: "\<And>x it. (item x = Inr it) = (table_item ext t x = Some it)"
    using response_by_table [OF assms(1)] by blast
  have "response ext cfg (Inr (PyDict obj)) = for_append item xs []"
    by (simp add: r assms(2) ebind_def)
  then show ?thesis
    by (simp add: for_append_Inr_iff map_Inr_Some_iff [OF i])
qed

theorem response_emits_table_items_witness:
  "dispatch_table (lemmy_type communities_cfg) = Some
     \<lparr>source_array = ''communities'', url_field = (''community'', ''actor_id''),
      title_field = (''community'', ''title''),
      content_field = (''community'', ''description''), content_default = Some ''''\<rparr>
   \<and> response example_ext communities_cfg
        (Inr (PyDict [(''communities'', PyList
           [PyDict [(''community'', PyDict [(''actor_id'', PyStr ''https://x/c/foo''),
              (''title'', PyStr ''Foo''), (''description'', PyStr ''**bold**'')])],
            PyDict [(''community'', PyDict [(''actor_id'', PyStr ''https://x/c/bar''),
              (''title'', PyStr ''Bar'')])]])]))
      = Inr [\<lparr>url = PyStr ''https://x/c/foo'', title = PyStr ''Foo'', content = ''bold''\<rparr>,
             \<lparr>url = PyStr ''https://x/c/bar'', title = PyStr ''Bar'', content = ''''\<rparr>]"
proof -
  let ?t = "\<lparr>source_array = ''communities'', url_field = (''community'', ''actor_id''),
      title_field = (''community'', ''title''),
      content_field = (''community'', ''description''), content_default = Some ''''\<rparr>"
  have d: "dispatch_table (lemmy_type communities_cfg) = Some ?t"
    by (simp add: dispatch_table_def communities_cfg_def)
  have a: "map_of [(''communities'', PyList
           [PyDict [(''community'', PyDict [(''actor_id'', PyStr ''https://x/c/foo''),
              (''title'', PyStr ''Foo''), (''description'', PyStr ''**bold**'')])],
            PyDict [(''community'', PyDict [(''actor_id'', PyStr ''https://x/c/bar''),
              (''title'', PyStr ''Bar'')])]])] (source_array ?t) = Some (PyList
           [PyDict [(''community'', PyDict [(''actor_id'', PyStr ''https://x/c/foo''),
              (''title'', PyStr ''Foo''), (''description'', PyStr ''**bold**'')])],
            PyDict [(''community'', PyDict [(''actor_id'', PyStr ''https://x/c/bar''),
              (''title'', PyStr ''Bar'')])]])"
    by simp
  show ?thesis
    using d response_emits_table_items [OF d a, of example_ext]
    by (simp add: table_item_def field_at_def render_excerpt_def example_ext_def)
qed

text \<open>
  The claim C1 as the specification states it, for every object that contains the source
  array, fails: the array below has one element, whose \<^verbatim>\<open>community\<close> has no
  \<^verbatim>\<open>title\<close>; the lookup \<^verbatim>\<open>result['community']['title']\<close> raises \<^verbatim>\<open>KeyError\<close> and no item
  is emitted.
\<close>

theorem response_raises_on_element_without_title:
  "response example_ext communities_cfg
     (Inr (PyDict [(''communities'', PyList
        [PyDict [(''community'', PyDict [(''actor_id'', PyStr ''https://x/c/foo'')])]])]))
   = Inl KeyError"
  by (simp add: eval_defs)

text \<open>
  C4. For the kind \<^verbatim>\<open>Comments\<close>, the title of every item that \<open>response\<close> returns is
  the field \<^verbatim>\<open>name\<close> of the sub-object \<^verbatim>\<open>post\<close> of the element it comes from, element
  by element; no field of the comment is used for it. The example of the specification
  (\<^verbatim>\<open>post.name = "Thread X"\<close>, \<^verbatim>\<open>comment.content = "hi"\<close>) is the witness.
\<close>

theorem comments_title_is_post_name:
  assumes "lemmy_type cfg = ''Comments''"
    and "map_of obj ''comments'' = Some (PyList xs)"
    and "response ext cfg (Inr (PyDict obj)) = Inr items"
  shows "map (\<lambda>it. Some (title it)) items = map (\<lambda>x. field_at x (''post'', ''name'')) xs"
proof -
  let ?t = "\<lparr>source_array = ''comments'', url_field = (''comment'', ''ap_id''),
          title_field = (''post'', ''name''),
          content_field = (''comment'', ''content''), content_default = None\<rparr>"
  have "response ext cfg (Inr (PyDict obj)) = for_append (comments_item ext) xs []"
    by (simp add: response_def assms(1,2) get_comments_def ebind_def)
  with assms(3) have m: "map (comments_item ext) xs = map Inr items"
    by (simp add: for_append_Inr_iff)
  have "length items = length xs"
    using map_eq_nth [OF m] by simp
  moreover have "\<forall>i<length xs. field_at (xs ! i) (''post'', ''name'') = Some (title (items ! i))"
  proof (intro allI impI)
    fix i assume "i < length xs"
    then have "comments_item ext (xs ! i) = Inr (items ! i)"
      using map_eq_nth [OF m] by simp
    then have "table_item ext ?t (xs ! i) = Some (items ! i)"
      by (simp add: comments_item_table [where a = "''comments''"])
    from table_item_fields(2) [OF this] show "field_at (xs ! i) (''post'', ''name'') = Some (title (items ! i))"
      by simp
  qed
  ultimately show ?thesis
    by (simp add: list_eq_iff_nth_eq)
qed

theorem comments_title_is_post_name_witness:
  "response example_ext comments_cfg
     (Inr (PyDict [(''comments'', PyList
        [comment_element ''https://x/comment/1'' ''Thread X'' [(''content'', PyStr ''hi'')]])]))
   = Inr [\<lparr>url = PyStr ''https://x/comment/1'', title = PyStr ''Thread X'', content = ''hi''\<rparr>]
   \<and> field_at (comment_element ''https://x/comment/1'' ''Thread X'' [(''content'', PyStr ''hi'')])
        (''post'', ''name'') = Some (PyStr ''Thread X'')"
proof -
  let ?x = "comment_element ''https://x/comment/1'' ''Thread X'' [(''content'', PyStr ''hi'')]"
  let ?it = "\<lparr>url = PyStr ''https://x/comment/1'', title = PyStr ''Thread X'', content = ''hi''\<rparr>"
  have k: "lemmy_type comments_cfg = ''Comments''"
    by (simp add: comments_cfg_def)
  have a: "map_of [(''comments'', PyList [?x])] ''comments'' = Some (PyList [?x])"
    by simp
  have r: "response example_ext comments_cfg (Inr (PyDict [(''comments'', PyList [?x])])) = Inr [?it]"
    by (simp add: eval_defs)
  from comments_title_is_post_name [OF k a r] r show ?thesis
    by simp
qed

text \<open>
  C5. For the kinds \<^verbatim>\<open>Communities\<close>, \<^verbatim>\<open>Users\<close> and \<^verbatim>\<open>Posts\<close>: when every element
  of the source array has its url and title fields, and a content field that is text or
  absent, \<open>response\<close> returns one item per element, and the content of an item whose
  element has no content field (\<^verbatim>\<open>description\<close>, \<^verbatim>\<open>bio\<close>, \<^verbatim>\<open>body\<close>) is the
  conversion of the empty string.
\<close>

theorem missing_optional_content_defaults_to_empty:
  assumes "dispatch_table (lemmy_type cfg) = Some t"
    and "lemmy_type cfg \<noteq> ''Comments''"
    and "map_of obj (source_array t) = Some (PyList xs)"
    and "\<forall>x\<in>set xs. field_at x (url_field t) \<noteq> None \<and> field_at x (title_field t) \<noteq> None
           \<and> (field_at x (content_field t) = None
                \<or> (\<exists>s. field_at x (content_field t) = Some (PyStr s)))"
  shows "\<exists>items. response ext cfg (Inr (PyDict obj)) = Inr items
           \<and> length items = length xs
           \<and> (\<forall>i<length xs. field_at (xs ! i) (content_field t) = None
                  \<longrightarrow> content (items ! i) = render_excerpt ext '''')"
proof -
  obtain item where
    r: "\<And>obj xs. map_of obj (source_array t) = Some (PyList xs) \<Longrightarrow>
        response ext cfg (Inr (PyDict obj)) = for_append item xs []"
    and i: "\<And>x it. (item x = Inr it) = (table_item ext t x = Some it)"
    using response_on_list [OF assms(1)] by blast
  have d: "content_default t = Some ''''"
    using dispatch_table_cases [OF assms(1)] assms(2) by auto
  have ok: "\<forall>x\<in>set xs. table_item ext t x \<noteq> None"
  proof
    fix x assume "x \<in> set xs"
    with assms(4) show "table_item ext t x \<noteq> None"
      by (intro table_item_exists) (auto simp: d)
  qed
  define items where "items = map (\<lambda>x. the (table_item ext t x)) xs"
  have m: "map (table_item ext t) xs = map Some items"
    using ok by (auto simp: items_def)
  then have s: "response ext cfg (Inr (PyDict obj)) = Inr items"
    by (simp add: r [OF assms(3)] for_append_Inr_iff map_Inr_Some_iff [OF i])
  have n: "length items = length xs \<and> (\<forall>i<length xs. table_item ext t (xs ! i) = Some (items ! i))"
    using map_eq_nth [OF m] .
  have "\<forall>i<length xs. field_at (xs ! i) (content_field t) = None
                  \<longrightarrow> content (items ! i) = render_excerpt ext ''''"
  proof (intro allI impI)
    fix i assume "i < length xs" and a: "field_at (xs ! i) (content_field t) = None"
    then have "table_item ext t (xs ! i) = Some (items ! i)"
      using n by simp
    from table_item_default [OF this a] show "content (items ! i) = render_excerpt ext ''''"
      by (simp add: d)
  qed
  with s n show ?thesis by blast
qed

theorem missing_optional_content_defaults_to_empty_witness:
  "response example_ext users_cfg
     (Inr (PyDict [(''users'', PyList
        [PyDict [(''person'', PyDict [(''actor_id'', PyStr ''https://x/u/ann''), (''name'', PyStr ''ann'')])]])]))
   = Inr [\<lparr>url = PyStr ''https://x/u/ann'', title = PyStr ''ann'',
           content = render_excerpt example_ext ''''\<rparr>]"
proof -
  let ?t = "\<lparr>source_array = ''users'', url_field = (''person'', ''actor_id''),
          title_field = (''person'', ''name''),
          content_field = (''person'', ''bio''), content_default = Some ''''\<rparr>"
  let ?x = "PyDict [(''person'', PyDict [(''actor_id'', PyStr ''https://x/u/ann''), (''name'', PyStr ''ann'')])]"
  have d: "dispatch_table (lemmy_type users_cfg) = Some ?t"
    by (simp add: dispatch_table_def users_cfg_def)
  have k: "lemmy_type users_cfg \<noteq> ''Comments''"
    by (simp add: users_cfg_def)
  have a: "map_of [(''users'', PyList [?x])] (source_array ?t) = Some (PyList [?x])"
    by simp
  have w: "\<forall>x\<in>set [?x]. field_at x (url_field ?t) \<noteq> None \<and> field_at x (title_field ?t) \<noteq> None
           \<and> (field_at x (content_field ?t) = None
                \<or> (\<exists>s. field_at x (content_field ?t) = Some (PyStr s)))"
    by (simp add: field_at_def)
  from missing_optional_content_defaults_to_empty [OF d k a w, of example_ext] obtain items where
    r: "response example_ext users_cfg (Inr (PyDict [(''users'', PyList [?x])])) = Inr items"
    and l: "length items = 1"
    and c: "content (items ! 0) = render_excerpt example_ext ''''"
    by (auto simp: field_at_def)
  from r l c show ?thesis
    by (simp add: eval_defs)
qed

text \<open>
  C6. For the kind \<^verbatim>\<open>Comments\<close>: when the \<^verbatim>\<open>comment\<close> sub-object of some element of
  the array has no \<^verbatim>\<open>content\<close> key, \<open>response\<close> returns no list: it raises a lookup
  error (\<open>MalformedResponse\<close> in the taxonomy of the specification), and nothing is put
  in the place of the missing content. The error is the \<^verbatim>\<open>KeyError\<close> of that lookup when
  the elements before it are well formed and the element has its url and title. The
  value \<open>Inl e\<close> is the result of \<open>response\<close> itself: no handler and no second attempt
  stands between the lookup and the caller.
\<close>

theorem comments_missing_content_raises:
  assumes "lemmy_type cfg = ''Comments''"
    and "dispatch_table ''Comments'' = Some t"
    and "map_of obj ''comments'' = Some (PyList xs)"
    and "i < length xs"
    and "xs ! i = PyDict el"
    and "map_of el ''comment'' = Some (PyDict c)"
    and "map_of c ''content'' = None"
  shows "(\<exists>e. response ext cfg (Inr (PyDict obj)) = Inl e \<and> malformed_response e)
       \<and> ((\<forall>j<i. table_item ext t (xs ! j) \<noteq> None) \<and> map_of c ''ap_id'' \<noteq> None
             \<and> field_at (xs ! i) (''post'', ''name'') \<noteq> None
           \<longrightarrow> response ext cfg (Inr (PyDict obj)) = Inl KeyError)"
proof -
  have r: "response ext cfg (Inr (PyDict obj)) = for_append (comments_item ext) xs []"
    by (simp add: response_def assms(1,3) get_comments_def ebind_def)
  have t: "\<And>x it. (comments_item ext x = Inr it) = (table_item ext t x = Some it)"
    using dispatch_table_cases [OF assms(2)] comments_item_table [where a = "''comments''"]
    by simp
  obtain e0 where e0: "comments_item ext (xs ! i) = Inl e0"
    using comments_item_no_content(1) [OF assms(6,7)] assms(5) by auto
  have "\<exists>e. for_append (comments_item ext) xs [] = Inl e \<and> malformed_response e"
  proof (cases "for_append (comments_item ext) xs []")
    case (Inl e)
    from for_append_Inl_source [OF this] comments_item_errors
    have "malformed_response e" by blast
    with Inl show ?thesis by simp
  next
    case (Inr items)
    then have "map (comments_item ext) xs = map Inr items"
      by (simp add: for_append_Inr_iff)
    from map_eq_nth [OF this] assms(4) have "comments_item ext (xs ! i) = Inr (items ! i)"
      by simp
    with e0 show ?thesis by simp
  qed
  moreover have "response ext cfg (Inr (PyDict obj)) = Inl KeyError"
    if a: "\<forall>j<i. table_item ext t (xs ! j) \<noteq> None" and b: "map_of c ''ap_id'' \<noteq> None"
      and c: "field_at (xs ! i) (''post'', ''name'') \<noteq> None"
  proof -
    have "comments_item ext (xs ! i) = Inl KeyError"
      using comments_item_no_content(2) [OF assms(6,7) b] c assms(5) by simp
    moreover have "\<forall>j<i. \<exists>it. comments_item ext (xs ! j) = Inr it"
      using a by (auto simp: t)
    ultimately show ?thesis
      unfolding r using assms(4) by (intro for_append_Inl_first) auto
  qed
  ultimately show ?thesis
    unfolding r by blast
qed

theorem comments_missing_content_raises_witness:
  "response example_ext comments_cfg
     (Inr (PyDict [(''comments'', PyList
        [comment_element ''https://x/comment/1'' ''Thread X'' [(''content'', PyStr ''hi'')],
         comment_element ''https://x/comment/2'' ''Thread X'' []])]))
   = Inl KeyError
   \<and> malformed_response KeyError"
proof -
  let ?t = "\<lparr>source_array = ''comments'', url_field = (''comment'', ''ap_id''),
          title_field = (''post'', ''name''),
          content_field = (''comment'', ''content''), content_default = None\<rparr>"
  let ?xs = "[comment_element ''https://x/comment/1'' ''Thread X'' [(''content'', PyStr ''hi'')],
         comment_element ''https://x/comment/2'' ''Thread X'' []]"
  let ?el = "[(''comment'', PyDict [(''ap_id'', PyStr ''https://x/comment/2'')]),
             (''post'', PyDict [(''name'', PyStr ''Thread X'')])]"
  let ?c = "[(''ap_id'', PyStr ''https://x/comment/2'')]"
  have k: "lemmy_type comments_cfg = ''Comments''"
    by (simp add: comments_cfg_def)
  have d: "dispatch_table ''Comments'' = Some ?t"
    by (simp add: dispatch_table_def)
  have a: "map_of [(''comments'', PyList ?xs)] ''comments'' = Some (PyList ?xs)"
    by simp
  have i: "1 < length ?xs" by simp
  have x: "?xs ! 1 = PyDict ?el" by (simp add: comment_element_def)
  have c: "map_of ?el ''comment'' = Some (PyDict ?c)" by simp
  have n: "map_of ?c ''content'' = None" by simp
  have p: "(\<forall>j<1. table_item example_ext ?t (?xs ! j) \<noteq> None) \<and> map_of ?c ''ap_id'' \<noteq> None
             \<and> field_at (?xs ! 1) (''post'', ''name'') \<noteq> None"
    by (simp add: table_item_def field_at_def comment_element_def)
  from comments_missing_content_raises [OF k d a i x c n, of example_ext] p
  have "response example_ext comments_cfg (Inr (PyDict [(''comments'', PyList ?xs)])) = Inl KeyError"
    by blast
  then show ?thesis by (simp add: malformed_response_def)
qed

text \<open>
  C7. For each of the four kinds and every response whose source array is a list of
  well-formed elements, \<open>response\<close> returns as many items as the array has elements, and
  the item at index \<open>i\<close> is the one built from the element at index \<open>i\<close>: nothing is
  sorted, dropped or merged.
\<close>

theorem response_preserves_order:
  assumes "dispatch_table (lemmy_type cfg) = Some t"
    and "map_of obj (source_array t) = Some (PyList xs)"
    and "\<forall>x\<in>set xs. table_item ext t x \<noteq> None"
  shows "\<exists>items. response ext cfg (Inr (PyDict obj)) = Inr items
           \<and> length items = length xs
           \<and> (\<forall>i<length xs. table_item ext t (xs ! i) = Some (items ! i))"
proof -
  obtain item where
    r: "\<And>obj xs. map_of obj (source_array t) = Some (PyList xs) \<Longrightarrow>
        response ext cfg (Inr (PyDict obj)) = for_append item xs []"
    and i: "\<And>x it. (item x = Inr it) = (table_item ext t x = Some it)"
    using response_on_list [OF assms(1)] by blast
  define items where "items = map (\<lambda>x. the (table_item ext t x)) xs"
  have m: "map (table_item ext t) xs = map Some items"
    using assms(3) by (auto simp: items_def)
  then have "response ext cfg (Inr (PyDict obj)) = Inr items"
    by (simp add: r [OF assms(2)] for_append_Inr_iff map_Inr_Some_iff [OF i])
  moreover have "length items = length xs \<and> (\<forall>i<length xs. table_item ext t (xs ! i) = Some (items ! i))"
    using map_eq_nth [OF m] .
  ultimately show ?thesis by blast
qed

theorem response_preserves_order_witness:
  "response example_ext posts_cfg
     (Inr (PyDict [(''posts'', PyList [post_element ''p2'' ''second'', post_element ''p1'' ''first'',
                                        post_element ''p2'' ''second''])]))
   = Inr [\<lparr>url = PyStr ''p2'', title = PyStr ''second'', content = ''''\<rparr>,
          \<lparr>url = PyStr ''p1'', title = PyStr ''first'', content = ''''\<rparr>,
          \<lparr>url = PyStr ''p2'', title = PyStr ''second'', content = ''''\<rparr>]"
proof -
  let ?t = "\<lparr>source_array = ''posts'', url_field = (''post'', ''ap_id''),
          title_field = (''post'', ''name''),
          content_field = (''post'', ''body''), content_default = Some ''''\<rparr>"
  let ?xs = "[post_element ''p2'' ''second'', post_element ''p1'' ''first'',
              post_element ''p2'' ''second'']"
  have d: "dispatch_table (lemmy_type posts_cfg) = Some ?t"
    by (simp add: dispatch_table_def posts_cfg_def)
  have a: "map_of [(''posts'', PyList ?xs)] (source_array ?t) = Some (PyList ?xs)"
    by simp
  have w: "\<forall>x\<in>set ?xs. table_item example_ext ?t x \<noteq> None"
    by (simp add: table_item_def field_at_def post_element_def)
  from response_preserves_order [OF d a w] obtain items where
    r: "response example_ext posts_cfg (Inr (PyDict [(''posts'', PyList ?xs)])) = Inr items"
    and l: "length items = length ?xs"
    and n: "\<forall>i<length ?xs. table_item example_ext ?t (?xs ! i) = Some (items ! i)"
    by blast
  from n [rule_format, of 0] n [rule_format, of 1] n [rule_format, of 2]
  have "table_item example_ext ?t (?xs ! 0) = Some (items ! 0)"
    and "table_item example_ext ?t (?xs ! 1) = Some (items ! 1)"
    and "table_item example_ext ?t (?xs ! 2) = Some (items ! 2)"
    by simp_all
  then have "items ! 0 = \<lparr>url = PyStr ''p2'', title = PyStr ''second'', content = ''''\<rparr>"
    and "items ! 1 = \<lparr>url = PyStr ''p1'', title = PyStr ''first'', content = ''''\<rparr>"
    and "items ! 2 = \<lparr>url = PyStr ''p2'', title = PyStr ''second'', content = ''''\<rparr>"
    by (simp_all add: table_item_def field_at_def post_element_def render_excerpt_def example_ext_def)
  moreover from l have "items = [items ! 0, items ! 1, items ! 2]"
    by (auto simp: list_eq_iff_nth_eq less_Suc_eq numeral_2_eq_2)
  ultimately have "items = [\<lparr>url = PyStr ''p2'', title = PyStr ''second'', content = ''''\<rparr>,
          \<lparr>url = PyStr ''p1'', title = PyStr ''first'', content = ''''\<rparr>,
          \<lparr>url = PyStr ''p2'', title = PyStr ''second'', content = ''''\<rparr>]"
    by simp
  with r show ?thesis by simp
qed

text \<open>
  C8. \<open>response\<close> is deterministic and keeps no state: run statement by statement on
  the state of the module, a call returns what the function \<open>response\<close> gives for the
  configuration and the JSON input, whatever an earlier call has left in the cell of
  \<^verbatim>\<open>results\<close> (every \<^verbatim>\<open>_get_*\<close> function assigns the empty list first); no call of
  \<open>request\<close> or \<open>response\<close> changes the module globals. So a second invocation on the
  same input, run in the state the first has left, returns the same as the first, and
  so does an invocation after any sequence of earlier calls. Where that output is a
  list, for a source array that is a list, it holds the item of each element in the
  order of the array.
\<close>

theorem response_keeps_no_state:
  "fst (response_st ext j s) = response ext (globals s) j
   \<and> globals (snd (response_st ext j s)) = globals s
   \<and> globals (run ext calls s) = globals s
   \<and> fst (response_st ext j (snd (response_st ext j s))) = fst (response_st ext j s)
   \<and> fst (response_st ext j (run ext calls s)) = fst (response_st ext j s)
   \<and> (\<forall>t obj xs items.
         dispatch_table (lemmy_type (globals s)) = Some t \<longrightarrow>
         j = Inr (PyDict obj) \<longrightarrow>
         map_of obj (source_array t) = Some (PyList xs) \<longrightarrow>
         fst (response_st ext j (snd (response_st ext j s))) = Inr items \<longrightarrow>
         map (table_item ext t) xs = map Some items)"
proof -
  have p: "fst (response_st ext j s') = response ext (globals s') j" for s'
    by (rule response_st_pure(1))
  have g: "globals (snd (response_st ext j s)) = globals s"
    by (rule response_st_pure(2))
  have r: "globals (run ext calls s) = globals s"
    by (rule run_globals)
  have o: "map (table_item ext t) xs = map Some items"
    if d: "dispatch_table (lemmy_type (globals s)) = Some t"
      and j: "j = Inr (PyDict obj)"
      and a: "map_of obj (source_array t) = Some (PyList xs)"
      and i: "fst (response_st ext j (snd (response_st ext j s))) = Inr items"
    for t obj xs items
  proof -
    obtain item where
      l: "\<And>obj xs. map_of obj (source_array t) = Some (PyList xs) \<Longrightarrow>
          response ext (globals s) (Inr (PyDict obj)) = for_append item xs []"
      and e: "\<And>x it. (item x = Inr it) = (table_item ext t x = Some it)"
      using response_on_list [OF d] by blast
    from i have "response ext (globals s) j = Inr items"
      by (simp add: p g)
    then have "for_append item xs [] = Inr items"
      by (simp add: j l [OF a])
    then show ?thesis
      by (simp add: for_append_Inr_iff map_Inr_Some_iff [OF e])
  qed
  from o show ?thesis
    by (simp add: p g r)
qed

theorem response_keeps_no_state_witness:
  "fst (response_st example_ext
          (Inr (PyDict [(''posts'', PyList [post_element ''p2'' ''second'', post_element ''p1'' ''first''])]))
          stale_state)
     = Inr [\<lparr>url = PyStr ''p2'', title = PyStr ''second'', content = ''''\<rparr>,
            \<lparr>url = PyStr ''p1'', title = PyStr ''first'', content = ''''\<rparr>]
   \<and> fst (response_st example_ext
          (Inr (PyDict [(''posts'', PyList [post_element ''p2'' ''second'', post_element ''p1'' ''first''])]))
          (snd (response_st example_ext
            (Inr (PyDict [(''posts'', PyList [post_element ''p2'' ''second'', post_element ''p1'' ''first''])]))
            stale_state)))
     = Inr [\<lparr>url = PyStr ''p2'', title = PyStr ''second'', content = ''''\<rparr>,
            \<lparr>url = PyStr ''p1'', title = PyStr ''first'', content = ''''\<rparr>]"
proof -
  let ?j = "Inr (PyDict [(''posts'', PyList [post_element ''p2'' ''second'', post_element ''p1'' ''first''])])"
  have e: "response example_ext (globals stale_state) ?j
      = Inr [\<lparr>url = PyStr ''p2'', title = PyStr ''second'', content = ''''\<rparr>,
             \<lparr>url = PyStr ''p1'', title = PyStr ''first'', content = ''''\<rparr>]"
    by (simp add: stale_state_def eval_defs)
  from response_keeps_no_state [where ext = example_ext and j = ?j and s = stale_state and calls = "[]"]
  have "fst (response_st example_ext ?j stale_state) = response example_ext (globals stale_state) ?j"
    and "fst (response_st example_ext ?j (snd (response_st example_ext ?j stale_state)))
       = fst (response_st example_ext ?j stale_state)"
    by blast+
  with e show ?thesis
    by simp
qed

text \<open>
  C10. For each of the four kinds, \<open>response\<close> reads the JSON object only at the key of
  the source array: two objects with the same entry (or both with none) at that key
  give the same outcome, whatever else they hold.
\<close>

theorem response_reads_only_source_array:
  assumes "dispatch_table (lemmy_type cfg) = Some t"
    and "map_of obj1 (source_array t) = map_of obj2 (source_array t)"
  shows "response ext cfg (Inr (PyDict obj1)) = response ext cfg (Inr (PyDict obj2))"
proof -
  obtain item where
    r: "\<And>json. response ext cfg (Inr json) =
        ebind (ebind (subscript json (source_array t)) py_iter) (\<lambda>xs. for_append item xs [])"
    and "\<And>x it. (item x = Inr it) = (table_item ext t x = Some it)"
    using response_by_table [OF assms(1)] by blast
  have e: "subscript (PyDict obj1) (source_array t) = subscript (PyDict obj2) (source_array t)"
    by (simp add: assms(2))
  show ?thesis
    unfolding r e by (rule refl)
qed

theorem response_reads_only_source_array_witness:
  "response example_ext communities_cfg
     (Inr (PyDict [(''communities'', PyList []), (''posts'', PyList [PyInt 1])]))
   = response example_ext communities_cfg
     (Inr (PyDict [(''users'', PyNone), (''communities'', PyList [])]))"
proof -
  let ?t = "\<lparr>source_array = ''communities'', url_field = (''community'', ''actor_id''),
      title_field = (''community'', ''title''),
      content_field = (''community'', ''description''), content_default = Some ''''\<rparr>"
  have d: "dispatch_table (lemmy_type communities_cfg) = Some ?t"
    by (simp add: dispatch_table_def communities_cfg_def)
  have a: "map_of [(''communities'', PyList []), (''posts'', PyList [PyInt 1])] (source_array ?t)
         = map_of [(''users'', PyNone), (''communities'', PyList [])] (source_array ?t)"
    by simp
  from response_reads_only_source_array [OF d a] show ?thesis .
qed

subsection \<open>Percent-encoding and its decoding\<close>

declare dec.simps [simp del]

lemma hex_digit_cases:
  assumes "n < 16"
  shows "hex_digit n \<in> set ''0123456789ABCDEF''"
  using assms unfolding hex_digit_def by (intro nth_mem) simp

lemma hex_value_hex_digit:
  assumes "n < 16"
  shows "hex_value (hex_digit n) = Some n"
proof -
  have "\<forall>n<16. hex_value (hex_digit n) = Some n"
    by (simp add: numeral_eq_Suc All_less_Suc hex_value_def hex_digit_def)
  with assms show ?thesis by blast
qed

lemma of_char_div_16: "(of_char c :: nat) div 16 < 16"
  using nat_of_char_less_256 [of c] by presburger

lemma always_safe_not_special:
  assumes "always_safe c"
  shows "c \<noteq> CHR ''+''" "c \<noteq> CHR ''%''" "c \<noteq> CHR ''&''" "c \<noteq> CHR ''=''" "c \<noteq> CHR '' ''"
  using assms by (auto simp: always_safe_def)

lemma hex_digit_not_special:
  assumes "n < 16"
  shows "hex_digit n \<noteq> CHR ''&''" "hex_digit n \<noteq> CHR ''=''" "hex_digit n \<noteq> CHR '' ''"
  using hex_digit_cases [OF assms] by auto

lemma unquote_plus_percent:
  "unquote_plus (percent c @ r) = c # unquote_plus r"
  by (simp add: percent_def hex_value_hex_digit of_char_div_16)

lemma percent_no_space: "CHR '' '' \<notin> set (percent c)"
  using hex_digit_not_special(3) [OF of_char_div_16 [of c]]
    hex_digit_not_special(3) [of "of_char c mod 16"]
  by (auto simp: percent_def)

lemma percent_no_separator:
  "CHR ''&'' \<notin> set (percent c)" "CHR ''='' \<notin> set (percent c)"
  using hex_digit_not_special(1,2) [OF of_char_div_16 [of c]]
    hex_digit_not_special(1,2) [of "of_char c mod 16"]
  by (auto simp: percent_def)

lemma quote_plus_bytes:
  "quote_plus s =
     concat (map (\<lambda>c. if c = CHR '' '' then ''+'' else if always_safe c then [c] else percent c) s)"
proof (cases "CHR '' '' \<in> set s")
  case False
  then have "quote s '''' =
     concat (map (\<lambda>c. if c = CHR '' '' then ''+'' else if always_safe c then [c] else percent c) s)"
    unfolding quote_def by (intro arg_cong [where f = concat] map_cong) auto
  with False show ?thesis by (simp add: quote_plus_def)
next
  case True
  have "map (\<lambda>c. if c = CHR '' '' then CHR ''+'' else c) (quote t '' '') =
     concat (map (\<lambda>c. if c = CHR '' '' then ''+'' else if always_safe c then [c] else percent c) t)" for t
  proof (induction t)
    case Nil
    show ?case by (simp add: quote_def)
  next
    case (Cons a t)
    have "map (\<lambda>c. if c = CHR '' '' then CHR ''+'' else c) (percent a) = percent a"
      using percent_no_space [of a] by (intro map_idI) auto
    with Cons show ?case
      by (auto simp: quote_def dest: always_safe_not_special(5))
  qed
  with True show ?thesis by (simp add: quote_plus_def)
qed

lemma unquote_plus_quote_plus: "unquote_plus (quote_plus s) = s"
  unfolding quote_plus_bytes
  by (induction s) (auto simp: unquote_plus_percent dest: always_safe_not_special(1,2))

lemma quote_plus_no_separator:
  "CHR ''&'' \<notin> set (quote_plus s)" "CHR ''='' \<notin> set (quote_plus s)"
  unfolding quote_plus_bytes
  using percent_no_separator
  by (auto dest: always_safe_not_special(3,4) split: if_splits)

lemma quote_plus_safe:
  assumes "\<forall>c\<in>set s. always_safe c"
  shows "quote_plus s = s"
  using assms unfolding quote_plus_bytes
  by (induction s) (auto dest: always_safe_not_special(5))

lemma split_on_single:
  assumes "sep \<notin> set a"
  shows "split_on sep a = [a]"
  using assms by (induction a) (auto split: list.splits)

lemma split_on_append:
  assumes "sep \<notin> set a"
  shows "split_on sep (a @ sep # r) = a # split_on sep r"
  using assms by (induction a) (auto split: list.splits)

lemma decode_pair_quote_plus:
  "decode_pair (quote_plus k @ CHR ''='' # quote_plus v) = (k, v)"
proof -
  have k: "\<And>x. x \<in> set (quote_plus k) \<Longrightarrow> x \<noteq> CHR ''=''"
    using quote_plus_no_separator(2) [of k] by auto
  have "takeWhile (\<lambda>c. c \<noteq> CHR ''='') (quote_plus k @ CHR ''='' # quote_plus v) = quote_plus k"
    by (subst takeWhile_append2) (simp_all add: k)
  moreover have "dropWhile (\<lambda>c. c \<noteq> CHR ''='') (quote_plus k @ CHR ''='' # quote_plus v)
      = CHR ''='' # quote_plus v"
    by (subst dropWhile_append2) (simp_all add: k)
  ultimately show ?thesis
    by (simp add: decode_pair_def unquote_plus_quote_plus)
qed

lemma decode_query_urlencode3:
  "decode_query (urlencode ext [(k1, v1), (k2, v2), (k3, v3)]) =
     [(k1, py_str ext v1), (k2, py_str ext v2), (k3, py_str ext v3)]"
proof -
  let ?p1 = "quote_plus k1 @ ''='' @ quote_plus (py_str ext v1)"
  let ?p2 = "quote_plus k2 @ ''='' @ quote_plus (py_str ext v2)"
  let ?p3 = "quote_plus k3 @ ''='' @ quote_plus (py_str ext v3)"
  have n: "CHR ''&'' \<notin> set ?p1" "CHR ''&'' \<notin> set ?p2" "CHR ''&'' \<notin> set ?p3"
    using quote_plus_no_separator(1) by simp_all
  have "urlencode ext [(k1, v1), (k2, v2), (k3, v3)] = ?p1 @ CHR ''&'' # ?p2 @ CHR ''&'' # ?p3"
    by (simp add: urlencode_def)
  moreover have "split_on CHR ''&'' (?p1 @ CHR ''&'' # ?p2 @ CHR ''&'' # ?p3) = [?p1, ?p2, ?p3]"
    by (simp only: split_on_append [OF n(1)] split_on_append [OF n(2)] split_on_single [OF n(3)])
  ultimately show ?thesis
    by (simp add: decode_query_def decode_pair_quote_plus del: append_assoc)
qed

subsection \<open>Decimal digits\<close>

lemma digit_value_digit:
  assumes "d < 10"
  shows "digit_value (''0123456789'' ! d) = Some d"
proof -
  have "\<forall>d<10. digit_value (''0123456789'' ! d) = Some d"
    by (simp add: numeral_eq_Suc All_less_Suc digit_value_def)
  with assms show ?thesis by blast
qed

lemma digit_in_digits:
  assumes "d < 10"
  shows "''0123456789'' ! d \<in> set ''0123456789''"
  using assms by (intro nth_mem) simp

lemma parse_nat_snoc:
  "parse_nat (xs @ [c]) acc =
     (case parse_nat xs acc of
        None \<Rightarrow> None
      | Some m \<Rightarrow> (case digit_value c of None \<Rightarrow> None | Some d \<Rightarrow> Some (10 * m + d)))"
  by (induction xs arbitrary: acc) (auto split: option.splits)

lemma parse_nat_dec: "parse_nat (dec n) 0 = Some n"
proof (induction n rule: dec.induct)
  case (1 n)
  show ?case
  proof (cases "n < 10")
    case True
    then show ?thesis
      by (subst dec.simps) (simp add: digit_value_digit)
  next
    case False
    with 1 have "parse_nat (dec (n div 10)) 0 = Some (n div 10)" by simp
    with False show ?thesis
      by (subst dec.simps) (simp add: parse_nat_snoc digit_value_digit)
  qed
qed

lemma dec_digits: "\<forall>c\<in>set (dec n). c \<in> set ''0123456789''"
proof (induction n rule: dec.induct)
  case (1 n)
  show ?case
  proof (cases "n < 10")
    case True
    then show ?thesis
      using digit_in_digits [of n] by (subst dec.simps) simp
  next
    case False
    with 1 have "\<forall>c\<in>set (dec (n div 10)). c \<in> set ''0123456789''" by simp
    with False show ?thesis
      using digit_in_digits [of "n mod 10"] by (subst dec.simps) simp
  qed
qed

lemma dec_nonempty: "dec n \<noteq> []"
  by (subst dec.simps) simp

lemma decode_int_int_str: "decode_int (int_str i) = Some i"
proof (cases "i < 0")
  case True
  then show ?thesis
    by (simp add: decode_int_def int_str_def dec_nonempty parse_nat_dec)
next
  case False
  obtain c cs where d: "dec (nat i) = c # cs"
    using dec_nonempty [of "nat i"] by (cases "dec (nat i)") auto
  then have "c \<in> set ''0123456789''"
    using dec_digits [of "nat i"] by simp
  then have "c \<noteq> CHR ''-''"
    by auto
  moreover have "parse_nat (c # cs) 0 = Some (nat i)"
    using parse_nat_dec [of "nat i"] d by simp
  ultimately show ?thesis
    using False d by (simp add: decode_int_def int_str_def)
qed

lemma int_str_safe: "\<forall>c\<in>set (int_str i). always_safe c"
proof -
  have "always_safe c" if "c \<in> set ''0123456789''" for c
    using that by (auto simp: always_safe_def)
  with dec_digits have "\<forall>c\<in>set (dec n). always_safe c" for n
    by blast
  then show ?thesis
    by (simp add: int_str_def always_safe_def)
qed

subsection \<open>The claims about \<^verbatim>\<open>request\<close>\<close>

lemma request_Some:
  assumes "params ''pageno'' = Some p"
  shows "request ext cfg q params =
     (params(''url'' \<mapsto> PyStr (base_url cfg @ ''api/v3/search?'' @
        urlencode ext [(''q'', PyStr q), (''page'', p), (''type_'', PyStr (lemmy_type cfg))])),
      Inr (params(''url'' \<mapsto> PyStr (base_url cfg @ ''api/v3/search?'' @
        urlencode ext [(''q'', PyStr q), (''page'', p), (''type_'', PyStr (lemmy_type cfg))]))))"
  using assms by (simp add: request_def Let_def)

lemma urlencode_search_args:
  "urlencode ext [(''q'', PyStr q), (''page'', PyInt n), (''type_'', PyStr k)] =
     ''q='' @ quote_plus q @ ''&page='' @ int_str n @ ''&type_='' @ quote_plus k"
proof -
  have "quote_plus ''q'' = ''q''" "quote_plus ''page'' = ''page''" "quote_plus ''type_'' = ''type_''"
    by (simp_all add: quote_plus_safe always_safe_def)
  moreover have "quote_plus (int_str n) = int_str n"
    using int_str_safe by (rule quote_plus_safe)
  ultimately show ?thesis
    by (simp add: urlencode_def py_str_def)
qed

text \<open>
  C2. For every query string (the empty one too), every page number and every
  configuration, \<open>request\<close> with an integer \<^verbatim>\<open>pageno\<close> stores and returns the URL
  \<^verbatim>\<open>{base_url}api/v3/search?q=..&page=..&type_=..\<close>, whose query part is a function of the
  query, the page and \<^verbatim>\<open>lemmy_type\<close> alone and decodes back to exactly the three
  parameters \<^verbatim>\<open>q\<close>, \<^verbatim>\<open>page\<close>, \<^verbatim>\<open>type_\<close> with the query, the decimal digits of the page
  (which read back as the page number) and the kind as their values.
\<close>

theorem request_url_decodes_back:
  assumes "params ''pageno'' = Some (PyInt n)"
  shows "(let qs = ''q='' @ quote_plus q @ ''&page='' @ int_str n @ ''&type_=''
                   @ quote_plus (lemmy_type cfg);
              params' = params(''url'' \<mapsto> PyStr (base_url cfg @ ''api/v3/search?'' @ qs))
          in request ext cfg q params = (params', Inr params')
             \<and> decode_query qs = [(''q'', q), (''page'', int_str n), (''type_'', lemmy_type cfg)])
         \<and> decode_int (int_str n) = Some n"
proof -
  let ?args = "[(''q'', PyStr q), (''page'', PyInt n), (''type_'', PyStr (lemmy_type cfg))]"
  have "decode_query (urlencode ext ?args) =
      [(''q'', py_str ext (PyStr q)), (''page'', py_str ext (PyInt n)),
       (''type_'', py_str ext (PyStr (lemmy_type cfg)))]"
    by (rule decode_query_urlencode3)
  then have "decode_query (urlencode ext ?args) =
      [(''q'', q), (''page'', int_str n), (''type_'', lemmy_type cfg)]"
    by (simp add: py_str_def)
  then show ?thesis
    using request_Some [where params = params and ext = ext and cfg = cfg and q = q, OF assms]
    by (simp only: urlencode_search_args Let_def decode_int_int_str simp_thms)
qed

theorem request_url_decodes_back_witness:
  "request example_ext communities_cfg ''a b&c'' [''pageno'' \<mapsto> PyInt 2] =
     ([''pageno'' \<mapsto> PyInt 2,
       ''url'' \<mapsto> PyStr ''https://lemmy.ml/api/v3/search?q=a+b%26c&page=2&type_=Communities''],
      Inr [''pageno'' \<mapsto> PyInt 2,
           ''url'' \<mapsto> PyStr ''https://lemmy.ml/api/v3/search?q=a+b%26c&page=2&type_=Communities''])
   \<and> decode_query ''q=a+b%26c&page=2&type_=Communities'' =
       [(''q'', ''a b&c''), (''page'', ''2''), (''type_'', ''Communities'')]
   \<and> decode_int ''2'' = Some 2"
proof -
  have p: "[''pageno'' \<mapsto> PyInt 2] ''pageno'' = Some (PyInt 2)"
    by simp
  have q: "quote_plus ''a b&c'' = ''a+b%26c''" "quote_plus ''Communities'' = ''Communities''"
    by (simp_all add: quote_plus_def quote_def always_safe_def percent_def hex_digit_def)
  have i: "int_str 2 = ''2''"
    by (simp add: int_str_def dec.simps)
  from request_url_decodes_back [where params = "[''pageno'' \<mapsto> PyInt 2]" and q = "''a b&c''"
      and cfg = communities_cfg and ext = example_ext, OF p]
  show ?thesis
    by (simp add: q i Let_def communities_cfg_def)
qed

text \<open>
  C9. \<open>request\<close> changes the \<^verbatim>\<open>params\<close> dictionary at the key \<^verbatim>\<open>'url'\<close> only: whatever
  the dictionary, every other key maps after the call to what it mapped to before. With
  \<^verbatim>\<open>pageno\<close> present the returned object is the dictionary itself, now with \<^verbatim>\<open>'url'\<close> set
  to the search URL; without \<^verbatim>\<open>pageno\<close> the call raises \<^verbatim>\<open>KeyError\<close> and leaves the
  dictionary as it was.
\<close>

theorem request_writes_only_url:
  "(\<forall>k. k \<noteq> ''url'' \<longrightarrow> fst (request ext cfg q params) k = params k)
   \<and> (params ''pageno'' = None \<longrightarrow> request ext cfg q params = (params, Inl KeyError))
   \<and> (\<forall>p. params ''pageno'' = Some p \<longrightarrow>
         snd (request ext cfg q params) = Inr (fst (request ext cfg q params))
         \<and> fst (request ext cfg q params) =
             params(''url'' \<mapsto> PyStr (base_url cfg @ ''api/v3/search?'' @
               urlencode ext [(''q'', PyStr q), (''page'', p), (''type_'', PyStr (lemmy_type cfg))])))"
  by (auto simp: request_def Let_def split: option.splits)

theorem request_writes_only_url_witness:
  "request example_ext communities_cfg ''x''
     [''pageno'' \<mapsto> PyInt 3, ''method'' \<mapsto> PyStr ''GET'', ''headers'' \<mapsto> PyDict [], ''url'' \<mapsto> PyStr '''']
   = ([''pageno'' \<mapsto> PyInt 3, ''method'' \<mapsto> PyStr ''GET'', ''headers'' \<mapsto> PyDict [],
       ''url'' \<mapsto> PyStr ''https://lemmy.ml/api/v3/search?q=x&page=3&type_=Communities''],
      Inr [''pageno'' \<mapsto> PyInt 3, ''method'' \<mapsto> PyStr ''GET'', ''headers'' \<mapsto> PyDict [],
           ''url'' \<mapsto> PyStr ''https://lemmy.ml/api/v3/search?q=x&page=3&type_=Communities''])
   \<and> request example_ext communities_cfg ''x'' [''method'' \<mapsto> PyStr ''GET'']
     = ([''method'' \<mapsto> PyStr ''GET''], Inl KeyError)"
proof -
  let ?params = "[''pageno'' \<mapsto> PyInt 3, ''method'' \<mapsto> PyStr ''GET'', ''headers'' \<mapsto> PyDict [],
                  ''url'' \<mapsto> PyStr '''']"
  let ?r = "request example_ext communities_cfg ''x'' ?params"
  have p: "?params ''pageno'' = Some (PyInt 3)"
    by simp
  have n: "[''method'' \<mapsto> PyStr ''GET''] ''pageno'' = None"
    by simp
  have u: "urlencode example_ext [(''q'', PyStr ''x''), (''page'', PyInt 3), (''type_'', PyStr ''Communities'')]
      = ''q=x&page=3&type_=Communities''"
    by (simp add: urlencode_def py_str_def int_str_def dec.simps quote_plus_def quote_def
        always_safe_def)
  from request_writes_only_url [where params = ?params and ext = example_ext
      and cfg = communities_cfg and q = "''x''"] p
  have "snd ?r = Inr (fst ?r)"
    and "fst ?r = ?params(''url'' \<mapsto> PyStr (base_url communities_cfg @ ''api/v3/search?'' @
              urlencode example_ext [(''q'', PyStr ''x''), (''page'', PyInt 3),
                 (''type_'', PyStr (lemmy_type communities_cfg))]))"
    by blast+
  then have "?r = (?params(''url'' \<mapsto> PyStr ''https://lemmy.ml/api/v3/search?q=x&page=3&type_=Communities''),
      Inr (?params(''url'' \<mapsto> PyStr ''https://lemmy.ml/api/v3/search?q=x&page=3&type_=Communities'')))"
    by (simp add: u communities_cfg_def prod_eq_iff)
  moreover from request_writes_only_url [where params = "[''method'' \<mapsto> PyStr ''GET'']"
      and ext = example_ext and cfg = communities_cfg and q = "''x''"] n
  have "request example_ext communities_cfg ''x'' [''method'' \<mapsto> PyStr ''GET'']
      = ([''method'' \<mapsto> PyStr ''GET''], Inl KeyError)"
    by blast
  ultimately show ?thesis
    by simp
qed

text \<open>
  C3, as the code has it. When \<^verbatim>\<open>lemmy_type\<close> is none of the four kinds, \<open>response\<close>
  raises \<^verbatim>\<open>ValueError\<close> (\<open>UnsupportedKind\<close>) on every decoded JSON body without looking
  at it, while \<open>request\<close> checks nothing: it builds the URL with \<^verbatim>\<open>type_\<close> set to the
  configured string and returns the dictionary. The error can therefore only appear
  after the request has been made and answered.
\<close>

theorem unsupported_kind_raised_by_response_only:
  assumes "lemmy_type cfg \<notin> {''Communities'', ''Users'', ''Posts'', ''Comments''}"
  shows "response ext cfg (Inr json) = Inl (ValueError (''Unsupported lemmy type: '' @ lemmy_type cfg))
       \<and> (\<forall>p. params ''pageno'' = Some p \<longrightarrow>
             snd (request ext cfg q params) =
               Inr (params(''url'' \<mapsto> PyStr (base_url cfg @ ''api/v3/search?'' @
                  urlencode ext [(''q'', PyStr q), (''page'', p), (''type_'', PyStr (lemmy_type cfg))]))))"
  using assms by (simp add: response_def request_def Let_def)

theorem unsupported_kind_raised_by_response_only_witness:
  "response example_ext unknown_cfg (Inr (PyDict [(''communities'', PyList [])]))
     = Inl (ValueError ''Unsupported lemmy type: Unknown'')
   \<and> snd (request example_ext unknown_cfg ''lemmy'' [''pageno'' \<mapsto> PyInt 2])
     = Inr [''pageno'' \<mapsto> PyInt 2,
            ''url'' \<mapsto> PyStr ''https://lemmy.ml/api/v3/search?q=lemmy&page=2&type_=Unknown'']"
proof -
  have k: "lemmy_type unknown_cfg \<notin> {''Communities'', ''Users'', ''Posts'', ''Comments''}"
    by (simp add: unknown_cfg_def)
  have p: "[''pageno'' \<mapsto> PyInt 2] ''pageno'' = Some (PyInt 2)"
    by simp
  have u: "urlencode example_ext [(''q'', PyStr ''lemmy''), (''page'', PyInt 2), (''type_'', PyStr ''Unknown'')]
      = ''q=lemmy&page=2&type_=Unknown''"
    by (simp add: urlencode_def py_str_def int_str_def dec.simps quote_plus_def quote_def
        always_safe_def)
  from unsupported_kind_raised_by_response_only [where ext = example_ext
      and params = "[''pageno'' \<mapsto> PyInt 2]" and q = "''lemmy''"
      and json = "PyDict [(''communities'', PyList [])]", OF k] p
  show ?thesis
    by (simp add: u unknown_cfg_def)
qed

text \<open>
  The claim C3 as the specification states it fails: with \<^verbatim>\<open>lemmy_type = "Unknown"\<close>,
  \<open>request\<close> raises nothing and returns the dictionary with the search URL in it, so the
  request descriptor is built before any error.
\<close>

theorem request_accepts_unsupported_kind:
  "lemmy_type unknown_cfg \<notin> {''Communities'', ''Users'', ''Posts'', ''Comments''}
   \<and> snd (request example_ext unknown_cfg ''x'' (map_of [(''pageno'', PyInt 1)]))
     = Inr ((map_of [(''pageno'', PyInt 1)])
              (''url'' \<mapsto> PyStr ''https://lemmy.ml/api/v3/search?q=x&page=1&type_=Unknown''))"
  by (simp add: unknown_cfg_def request_def Let_def urlencode_def py_str_def int_str_def dec.simps
      quote_plus_def quote_def always_safe_def)

end
